theory Spec2Isabelle
  imports Complex_Main
begin

section \<open>Numbers\<close>

text \<open>
  The component is TypeScript: every \<open>number\<close> is an IEEE double. The particle count,
  a whole number, is an \<^typ>\<open>int\<close>. The shape generator and the floating, mouse and
  ripple updates are read over exact reals (\<open>Math.sin\<close>, \<open>Math.cos\<close>, \<open>Math.sqrt\<close>,
  \<open>Math.PI\<close> as \<^term>\<open>sin\<close>, \<^term>\<open>cos\<close>, \<^term>\<open>sqrt\<close>, \<^term>\<open>pi\<close>): what is
  stated of them are counts, formulas and flags. NaN and the infinities are outside the
  model. A division by zero gives NaN or an infinity in the source and no exception; the
  shape generator below therefore records the divisor of every division it evaluates, so
  that the absence of zero divisors can be stated.
  The counts \<open>Math.floor(particleCount * 0.15)\<close> and the like are the floors of the exact
  products. \<open>Math.random()\<close>, \<open>Date.now()\<close> and the viewport size are inputs of the
  model.

  \<open>updateParticlePosition\<close> is read over the doubles themselves, because whether it
  reaches the target exactly is a matter of rounding. \<open>fl\<close> rounds a real to the nearest
  double, ties to even, with the gradual underflow of binary64 (a result beyond the
  largest double is outside the model): the sum, difference and product of two doubles
  are \<open>fl\<close> of the exact result, \<open>Math.PI\<close> is the double nearest to \<open>\<pi>\<close>, and
  \<open>Math.sin\<close>, \<open>Math.cos\<close> and \<open>Math.pow\<close> are taken as correctly rounded (ECMAScript
  leaves their last bit to the engine).
\<close>

definition round_ties_even :: "real \<Rightarrow> int" where
  "round_ties_even x =
    (let f = \<lfloor>x\<rfloor>; d = x - of_int f
     in if d < 1 / 2 then f else if 1 / 2 < d then f + 1 else if even f then f else f + 1)"

text \<open>The exponent of the binade of \<open>x\<close>, not below that of the subnormal doubles.\<close>

definition binade :: "real \<Rightarrow> int" where
  "binade x = max \<lfloor>log 2 \<bar>x\<bar>\<rfloor> (- 1022)"

definition fl :: "real \<Rightarrow> real" where
  "fl x = (if x = 0 then 0
           else of_int (round_ties_even (x / 2 powr of_int (binade x - 52)))
                  * 2 powr of_int (binade x - 52))"

text \<open>\<open>Math.PI\<close> is \<open>0x400921FB54442D18\<close>, that is 7074237752028440 / 2^51.\<close>

definition Math_PI :: real where
  "Math_PI = 884279719003555 / 281474976710656"

definition Math_sin :: "real \<Rightarrow> real" where
  "Math_sin x = fl (sin x)"

definition Math_cos :: "real \<Rightarrow> real" where
  "Math_cos x = fl (cos x)"

definition Math_pow :: "real \<Rightarrow> real \<Rightarrow> real" where
  "Math_pow b y = fl (b powr y)"

section \<open>Shape generator\<close>

datatype ptype = Body | UpperWing | LowerWing | Antenna

record ButterflyPoint =
  pt_x :: real
  pt_y :: real
  pt_type :: ptype
  pt_color :: string

text \<open>
  The array \<open>points\<close> that the generator fills, together with the record of divisors.
\<close>

record gen_state =
  points :: "ButterflyPoint list"
  divisors :: "real list"

definition push :: "ButterflyPoint \<Rightarrow> gen_state \<Rightarrow> gen_state" where
  "push p st = st\<lparr>points := points st @ [p]\<rparr>"

definition note_div :: "real \<Rightarrow> gen_state \<Rightarrow> gen_state" where
  "note_div d st = st\<lparr>divisors := divisors st @ [d]\<rparr>"

text \<open>
  \<open>for (let i = i0; i < bound; i++) body\<close>, with a bound that need not be whole
  (\<open>antennaParticles / 2\<close>).
\<close>

function for_lt :: "real \<Rightarrow> (int \<Rightarrow> 's \<Rightarrow> 's) \<Rightarrow> int \<Rightarrow> 's \<Rightarrow> 's" where
  "for_lt bound f i s = (if real_of_int i < bound then for_lt bound f (i + 1) (f i s) else s)"
  by pat_completeness auto
termination
  by (relation "measure (\<lambda>(bound, f, i, s). nat (\<lceil>bound\<rceil> - i))") (auto simp: less_ceiling_iff)

declare for_lt.simps [simp del]

text \<open>\<open>for (let side = -1; side <= 1; side += 2) body\<close>: two rounds.\<close>

definition for_sides :: "(real \<Rightarrow> 's \<Rightarrow> 's) \<Rightarrow> 's \<Rightarrow> 's" where
  "for_sides f s = f 1 (f (- 1) s)"

text \<open>
  \<open>getWingColor\<close>. The test \<open>(gridX + gridY) % 3 === 0\<close> holds exactly when 3 divides
  the sum, whichever sign the remainder of a negative sum takes.
\<close>

definition getWingColor :: "real \<Rightarrow> real \<Rightarrow> real \<Rightarrow> real \<Rightarrow> string" where
  "getWingColor x y centerX centerY =
    (let dotSize = 30 :: real;
         gridX = \<lfloor>(x - centerX + 200) / dotSize\<rfloor>;
         gridY = \<lfloor>(y - centerY + 200) / dotSize\<rfloor>;
         dotCenterX = centerX - 200 + of_int gridX * dotSize + dotSize / 2;
         dotCenterY = centerY - 200 + of_int gridY * dotSize + dotSize / 2;
         distToDot = sqrt ((x - dotCenterX)\<^sup>2 + (y - dotCenterY)\<^sup>2)
     in if distToDot < 8
        then (if (gridX + gridY) mod 3 = 0 then ''#DC143C'' else ''#1A1A1A'')
        else ''#FFD700'')"

text \<open>
  One round of the body loop: the inner loop over \<open>j\<close> runs at most twice and stops as
  soon as \<open>points.length < bodyParticles\<close> fails.
\<close>

definition body_point :: "int \<Rightarrow> real \<Rightarrow> real \<Rightarrow> real \<Rightarrow> int \<Rightarrow> int \<Rightarrow> ButterflyPoint" where
  "body_point bodyParticles centerX centerY scale i j =
    (let prog = of_int i / of_int (bodyParticles - 1);
         y = centerY + (prog - 0.5) * 120 * scale;
         thickness = sin (prog * pi) * 3
     in \<lparr>pt_x = centerX + (of_int j - 0.5) * thickness, pt_y = y,
         pt_type = Body, pt_color = ''#8B4513''\<rparr>)"

definition body_iter :: "int \<Rightarrow> real \<Rightarrow> real \<Rightarrow> real \<Rightarrow> int \<Rightarrow> gen_state \<Rightarrow> gen_state" where
  "body_iter bodyParticles centerX centerY scale i st =
    (let st0 = note_div (of_int (bodyParticles - 1)) st
     in if int (length (points st0)) < bodyParticles
        then (let st1 = push (body_point bodyParticles centerX centerY scale i 0) st0
              in if int (length (points st1)) < bodyParticles
                 then push (body_point bodyParticles centerX centerY scale i 1) st1
                 else st1)
        else st0)"

definition antenna_point :: "int \<Rightarrow> real \<Rightarrow> real \<Rightarrow> real \<Rightarrow> real \<Rightarrow> int \<Rightarrow> ButterflyPoint" where
  "antenna_point antennaParticles centerX centerY scale side i =
    (let prog = of_int i / (of_int antennaParticles / 2 - 1);
         curve = sin (prog * pi * 0.5)
     in \<lparr>pt_x = centerX + side * (12 + prog * 25) * scale,
         pt_y = centerY - 70 * scale - prog * 20 * scale + curve * 10 * scale,
         pt_type = Antenna, pt_color = ''#1A1A1A''\<rparr>)"

definition antenna_iter :: "int \<Rightarrow> real \<Rightarrow> real \<Rightarrow> real \<Rightarrow> real \<Rightarrow> int \<Rightarrow> gen_state \<Rightarrow> gen_state" where
  "antenna_iter antennaParticles centerX centerY scale side i st =
    push (antenna_point antennaParticles centerX centerY scale side i)
      (note_div (of_int antennaParticles / 2 - 1) st)"

definition upper_point :: "int \<Rightarrow> real \<Rightarrow> real \<Rightarrow> real \<Rightarrow> real \<Rightarrow> int \<Rightarrow> ButterflyPoint" where
  "upper_point upperWingParticles centerX centerY scale side i =
    (let angle = (of_int i / (of_int upperWingParticles / 2)) * pi;
         radius = 40 + 25 * sin (angle * 2);
         x = centerX + side * radius * cos angle * scale;
         y = centerY - 30 * scale + radius * sin angle * 0.8 * scale
     in \<lparr>pt_x = x, pt_y = y, pt_type = UpperWing,
         pt_color = getWingColor x y centerX centerY\<rparr>)"

definition upper_iter :: "int \<Rightarrow> real \<Rightarrow> real \<Rightarrow> real \<Rightarrow> real \<Rightarrow> int \<Rightarrow> gen_state \<Rightarrow> gen_state" where
  "upper_iter upperWingParticles centerX centerY scale side i st =
    push (upper_point upperWingParticles centerX centerY scale side i)
      (note_div (of_int upperWingParticles / 2) st)"

definition lower_point :: "int \<Rightarrow> real \<Rightarrow> real \<Rightarrow> real \<Rightarrow> real \<Rightarrow> int \<Rightarrow> ButterflyPoint" where
  "lower_point lowerWingParticles centerX centerY scale side i =
    (let angle = (of_int i / (of_int lowerWingParticles / 2)) * pi * 0.7;
         radius = 25 + 15 * sin (angle * 3);
         x = centerX + side * radius * cos angle * scale;
         y = centerY + 20 * scale + radius * sin angle * 0.9 * scale
     in \<lparr>pt_x = x, pt_y = y, pt_type = LowerWing,
         pt_color = getWingColor x y centerX centerY\<rparr>)"

definition lower_iter :: "int \<Rightarrow> real \<Rightarrow> real \<Rightarrow> real \<Rightarrow> real \<Rightarrow> int \<Rightarrow> gen_state \<Rightarrow> gen_state" where
  "lower_iter lowerWingParticles centerX centerY scale side i st =
    push (lower_point lowerWingParticles centerX centerY scale side i)
      (note_div (of_int lowerWingParticles / 2) st)"

definition generateWings :: "real \<Rightarrow> real \<Rightarrow> real \<Rightarrow> int \<Rightarrow> gen_state \<Rightarrow> gen_state" where
  "generateWings centerX centerY scale wingParticles st =
    (let upperWingParticles = \<lfloor>of_int wingParticles * (0.6 :: real)\<rfloor>;
         lowerWingParticles = wingParticles - upperWingParticles;
         st1 = for_sides (\<lambda>side.
                 for_lt (of_int upperWingParticles / 2)
                   (upper_iter upperWingParticles centerX centerY scale side) 0) st
     in for_sides (\<lambda>side.
          for_lt (of_int lowerWingParticles / 2)
            (lower_iter lowerWingParticles centerX centerY scale side) 0) st1)"

text \<open>
  \<open>generateButterflyShape\<close>, with the viewport (\<open>window.innerWidth\<close>,
  \<open>window.innerHeight\<close>) and the prop \<open>particleCount\<close> as arguments.
  \<open>generateButterflyShape_run\<close> is the whole run, divisors included; the function's
  result is its array of points.
\<close>

definition generateButterflyShape_run :: "int \<Rightarrow> real \<Rightarrow> real \<Rightarrow> gen_state" where
  "generateButterflyShape_run particleCount innerWidth innerHeight =
    (let st0 = \<lparr>points = [], divisors = []\<rparr>;
         centerX = innerWidth / 2;
         centerY = innerHeight / 2 - 50;
         scale = min innerWidth innerHeight / 800;
         bodyParticles = \<lfloor>of_int particleCount * (0.15 :: real)\<rfloor>;
         st1 = for_lt (of_int bodyParticles)
                 (body_iter bodyParticles centerX centerY scale) 0 st0;
         antennaParticles = \<lfloor>of_int particleCount * (0.05 :: real)\<rfloor>;
         st2 = for_sides (\<lambda>side.
                 for_lt (of_int antennaParticles / 2)
                   (antenna_iter antennaParticles centerX centerY scale side) 0) st1;
         wingParticles = particleCount - int (length (points st2))
     in generateWings centerX centerY scale wingParticles st2)"

definition generateButterflyShape :: "int \<Rightarrow> real \<Rightarrow> real \<Rightarrow> ButterflyPoint list" where
  "generateButterflyShape particleCount innerWidth innerHeight =
    points (generateButterflyShape_run particleCount innerWidth innerHeight)"

text \<open>The number of points of one type, and the rounds of a loop \<open>i < n / 2\<close> from 0.\<close>

definition count_type :: "ptype \<Rightarrow> ButterflyPoint list \<Rightarrow> nat" where
  "count_type t ps = length (filter (\<lambda>p. pt_type p = t) ps)"

definition half_rounds :: "int \<Rightarrow> int list" where
  "half_rounds n = [0..\<lceil>real_of_int n / 2\<rceil> - 1]"

text \<open>A colour value as the generator writes it: \<open>#\<close> and six hexadecimal digits.\<close>

definition well_formed_color :: "string \<Rightarrow> bool" where
  "well_formed_color c \<longleftrightarrow>
     length c = 7 \<and> hd c = CHR ''#'' \<and> set (tl c) \<subseteq> set ''0123456789ABCDEFabcdef''"

section \<open>Particles and the component\<close>

text \<open>
  The SVG circle of a particle: for each attribute the number last given for it, to
  \<open>setAttribute\<close> or to \<open>gsap.set(..., {attr: ...})\<close>, and the two style properties
  given to \<open>gsap.set\<close>. How GSAP formats a number it is given before it reaches the DOM
  is the library's matter and not part of this source.
\<close>

record Element =
  attr_cx :: real
  attr_cy :: real
  attr_r :: real
  attr_fill :: string
  attr_opacity :: real
  css_scale :: real
  css_opacity :: real

record Particle =
  element :: Element
  startX :: real
  startY :: real
  targetX :: real
  targetY :: real
  progress :: real
  speed :: real
  p_type :: ptype
  formed :: bool
  radius :: real
  originalColor :: string
  floatPhase :: real
  floatSpeed :: real
  floatAmplitude :: real
  mouseOffsetX :: real
  mouseOffsetY :: real
  originalTargetX :: real
  originalTargetY :: real

text \<open>
  Particles are objects shared by reference; the model names one by its index in the
  array \<open>particles\<close>. The children of the SVG surface are the particles' circles and
  the ripple rings. GSAP animations that have been started are kept as values: what they
  do when they tick or complete is given by the functions further down.
\<close>

datatype svg_child = Circle nat | Ripple real real

datatype tween =
    Formation "nat list list"
  | Scatter "(real \<times> real \<times> real) list"
  | RippleRing real real
  | Pulse nat real real

text \<open>
  The component: its props, its React state, \<open>svgRef.current\<close> (\<open>None\<close> when the
  surface is missing) and \<open>mouseRef.current\<close>. State updates take effect at once.
\<close>

record Component =
  particleCount :: int
  isTransformed :: bool
  svgRef :: "svg_child list option"
  particles :: "Particle list"
  butterflyPoints :: "ButterflyPoint list"
  isFormed :: bool
  formationProgress :: real
  fps :: real
  isResetting :: bool
  mouseRef :: "real \<times> real"
  tweens :: "tween list"

definition easeOutExpo :: "real \<Rightarrow> real" where
  "easeOutExpo t = (if t = 1 then 1 else fl (1 - Math_pow 2 (fl (- 10 * t))))"

text \<open>\<open>getEdgePosition\<close>, with its two draws of \<open>Math.random()\<close> as arguments.\<close>

definition getEdgePosition :: "real \<Rightarrow> real \<Rightarrow> real \<Rightarrow> real \<Rightarrow> real \<times> real" where
  "getEdgePosition r1 r2 innerWidth innerHeight =
    (let side = \<lfloor>r1 * 4\<rfloor>; padding = 150 :: real
     in if side = 0 then (r2 * innerWidth, - padding)
        else if side = 1 then (innerWidth + padding, r2 * innerHeight)
        else if side = 2 then (r2 * innerWidth, innerHeight + padding)
        else if side = 3 then (- padding, r2 * innerHeight)
        else (0, 0))"

text \<open>
  The particle that \<open>createParticleSystem\<close> builds for the point of index \<open>k\<close>. Each
  particle takes six draws of \<open>Math.random()\<close>, in the source's order: radius, the two
  of \<open>getEdgePosition\<close>, speed, floatPhase, floatSpeed.
\<close>

definition make_particle :: "(nat \<Rightarrow> real) \<Rightarrow> real \<Rightarrow> real \<Rightarrow> nat \<Rightarrow> ButterflyPoint \<Rightarrow> Particle" where
  "make_particle rnd innerWidth innerHeight k point =
    (let rad = rnd (6 * k) * 1.5 + 1.5;
         startPos = getEdgePosition (rnd (6 * k + 1)) (rnd (6 * k + 2)) innerWidth innerHeight
     in \<lparr>element = \<lparr>attr_cx = fst startPos, attr_cy = snd startPos, attr_r = rad,
                      attr_fill = pt_color point, attr_opacity = 0.5,
                      css_scale = 0.6, css_opacity = 0.3\<rparr>,
         startX = fst startPos,
         startY = snd startPos,
         targetX = pt_x point,
         targetY = pt_y point,
         progress = 0,
         speed = 0.015 + rnd (6 * k + 3) * 0.02,
         p_type = pt_type point,
         formed = False,
         radius = rad,
         originalColor = pt_color point,
         floatPhase = rnd (6 * k + 4) * pi * 2,
         floatSpeed = 0.5 + rnd (6 * k + 5) * 0.5,
         floatAmplitude = (if pt_type point = Body then 2 else 4),
         mouseOffsetX = 0,
         mouseOffsetY = 0,
         originalTargetX = pt_x point,
         originalTargetY = pt_y point\<rparr>)"

text \<open>
  \<open>createParticleSystem\<close> returns \<open>undefined\<close> and changes nothing when the surface
  is missing; otherwise it returns the new particles (here with the new state).
\<close>

definition createParticleSystem ::
    "(nat \<Rightarrow> real) \<Rightarrow> real \<Rightarrow> real \<Rightarrow> Component \<Rightarrow> (Particle list \<times> Component) option" where
  "createParticleSystem rnd innerWidth innerHeight s =
    (case svgRef s of
       None \<Rightarrow> None
     | Some children \<Rightarrow>
        (let newButterflyPoints = generateButterflyShape (particleCount s) innerWidth innerHeight;
             newParticles = map (\<lambda>(k, point). make_particle rnd innerWidth innerHeight k point)
                              (enumerate 0 newButterflyPoints)
         in Some (newParticles,
                  s\<lparr>butterflyPoints := newButterflyPoints,
                    svgRef := Some (children @ map Circle [0..<length newButterflyPoints]),
                    particles := newParticles\<rparr>)))"

text \<open>
  \<open>animateFormation\<close>: the batches \<open>slice(i, i + 50)\<close> for \<open>i = 0, 50, ...\<close>, one
  timeline holding their tweens and the tween of the published progress.
\<close>

function batches_from :: "nat \<Rightarrow> nat \<Rightarrow> nat list list" where
  "batches_from i n = (if i < n then [i..<min (i + 50) n] # batches_from (i + 50) n else [])"
  by pat_completeness auto
termination
  by (relation "measure (\<lambda>(i, n). n - i)") auto

declare batches_from.simps [simp del]

definition animateFormation :: "Particle list \<Rightarrow> Component \<Rightarrow> Component" where
  "animateFormation particlesToAnimate s =
    s\<lparr>isFormed := False, formationProgress := 0,
      tweens := tweens s @ [Formation (batches_from 0 (length particlesToAnimate))]\<rparr>"

text \<open>
  \<open>updateParticlePosition\<close>, every operation rounded as the doubles round it.
  \<open>path_curve\<close> is the source's \<open>pathCurve\<close> as a function of the progress. The
  literals 0.7, 0.4 and 0.95 stand for the doubles nearest to them; for a progress that is
  a double, exceeding 0.95 and exceeding the double nearest to 0.95 are the same test.
\<close>

definition path_curve :: "real \<Rightarrow> real" where
  "path_curve prog = fl (Math_sin (fl (prog * Math_PI)) * 20)"

definition updateParticlePosition :: "Particle \<Rightarrow> Particle" where
  "updateParticlePosition particle =
    (let easeProgress = easeOutExpo (progress particle);
         currentX = fl (startX particle
                        + fl (fl (targetX particle - startX particle) * easeProgress));
         currentY = fl (startY particle
                        + fl (fl (targetY particle - startY particle) * easeProgress));
         pathCurve = path_curve (progress particle);
         curveX = fl (currentX
                      + fl (pathCurve * Math_cos (fl (fl (progress particle * Math_PI) * 2))));
         curveY = fl (currentY
                      + fl (fl (pathCurve * 0.5)
                            * Math_sin (fl (fl (progress particle * Math_PI) * 3))));
         p1 = particle\<lparr>element := (element particle)\<lparr>attr_cx := curveX, attr_cy := curveY,
                  css_scale := fl (fl 0.7 + fl (progress particle * 0.5)),
                  css_opacity := fl (fl 0.4 + fl (progress particle * 0.5))\<rparr>\<rparr>
     in if progress p1 > 0.95 \<and> \<not> formed p1 then p1\<lparr>formed := True\<rparr> else p1)"

text \<open>
  One tick of a formation tween on one particle: GSAP writes the tweened value into
  \<open>progress\<close>, then \<open>onUpdate\<close> runs \<open>if (particle.progress > 0)
  updateParticlePosition(particle)\<close>. A formation run of a particle is a sequence of
  ticks; GSAP ends a tween that completes with a tick at the end value, 1.
\<close>

definition tween_tick :: "real \<Rightarrow> Particle \<Rightarrow> Particle" where
  "tween_tick v particle =
    (let p1 = particle\<lparr>progress := v\<rparr>
     in if progress p1 > 0 then updateParticlePosition p1 else p1)"

definition formation_run :: "real list \<Rightarrow> Particle \<Rightarrow> Particle" where
  "formation_run vs particle = fold tween_tick vs particle"

definition formation_complete_run :: "real list \<Rightarrow> Particle \<Rightarrow> Particle" where
  "formation_complete_run vs particle = formation_run (vs @ [1]) particle"

text \<open>The timeline's \<open>onComplete\<close>: \<open>setIsFormed(true)\<close>.\<close>

definition formationComplete :: "Component \<Rightarrow> Component" where
  "formationComplete s = s\<lparr>isFormed := True\<rparr>"

text \<open>
  \<open>updateFloating\<close>: the callback of \<open>particles.forEach\<close>, and the whole call.
  \<open>time\<close> is \<open>Date.now() / 1000\<close>.
\<close>

definition floating_step :: "real \<Rightarrow> Particle \<Rightarrow> Particle" where
  "floating_step time particle =
    (if \<not> formed particle then particle
     else
      (let offsetX = sin (time * floatSpeed particle + floatPhase particle) * floatAmplitude particle;
           offsetY = cos (time * floatSpeed particle + floatPhase particle)
                       * floatAmplitude particle * 0.6;
           totalX = targetX particle + offsetX + mouseOffsetX particle;
           totalY = targetY particle + offsetY + mouseOffsetY particle
       in particle\<lparr>element := (element particle)\<lparr>attr_cx := totalX, attr_cy := totalY\<rparr>,
                   mouseOffsetX := mouseOffsetX particle * 0.92,
                   mouseOffsetY := mouseOffsetY particle * 0.92\<rparr>))"

definition updateFloating :: "real \<Rightarrow> Component \<Rightarrow> Component" where
  "updateFloating time s = s\<lparr>particles := map (floating_step time) (particles s)\<rparr>"


text \<open>
  \<open>handleMouseMove\<close>. The event carries \<open>clientX\<close> and \<open>clientY\<close>; the bounding
  rectangle of the surface gives \<open>left\<close> and \<open>top\<close>.
\<close>

record MouseEvent =
  clientX :: real
  clientY :: real

record DOMRect =
  rect_left :: real
  rect_top :: real

definition mouse_near :: "real \<Rightarrow> real \<Rightarrow> Particle \<Rightarrow> bool" where
  "mouse_near mx my particle \<longleftrightarrow>
     formed particle \<and> sqrt ((mx - targetX particle) * (mx - targetX particle)
                            + (my - targetY particle) * (my - targetY particle)) < 120"

definition mouse_step :: "real \<Rightarrow> real \<Rightarrow> real \<Rightarrow> real \<Rightarrow> Particle \<Rightarrow> Particle" where
  "mouse_step mx my butterflyCenterX butterflyCenterY particle =
    (if \<not> formed particle then particle
     else
      (let dx = mx - targetX particle;
           dy = my - targetY particle;
           distance = sqrt (dx * dx + dy * dy)
       in if distance < 120
          then (let force = max 0 ((120 - distance) / 120);
                    toCenterX = butterflyCenterX - targetX particle;
                    toCenterY = butterflyCenterY - targetY particle;
                    centerDist = sqrt (toCenterX * toCenterX + toCenterY * toCenterY);
                    centerDirX = toCenterX / (if centerDist = 0 then 1 else centerDist);
                    centerDirY = toCenterY / (if centerDist = 0 then 1 else centerDist)
                in particle\<lparr>mouseOffsetX := (- dx * force * 15) + (centerDirX * force * 6),
                            mouseOffsetY := (- dy * force * 15) + (centerDirY * force * 6)\<rparr>)
          else particle))"

definition handleMouseMove ::
    "MouseEvent \<Rightarrow> DOMRect \<Rightarrow> real \<Rightarrow> real \<Rightarrow> Component \<Rightarrow> Component" where
  "handleMouseMove e rect innerWidth innerHeight s =
    (if svgRef s = None then s
     else
      (let mx = clientX e - rect_left rect;
           my = clientY e - rect_top rect;
           s1 = s\<lparr>mouseRef := (mx, my)\<rparr>
       in if isFormed s1
          then s1\<lparr>particles := map (mouse_step mx my (innerWidth / 2) (innerHeight / 2 - 50))
                                  (particles s1),
                  tweens := tweens s1 @ map (\<lambda>k. Pulse k 1.2 0.3)
                     (filter (\<lambda>k. mouse_near mx my (particles s1 ! k)) [0..<length (particles s1)])\<rparr>
          else s1))"

text \<open>\<open>createRippleEffect\<close> and \<open>handleClick\<close>.\<close>

definition ripple_force :: "real \<Rightarrow> real \<Rightarrow> Particle \<Rightarrow> real" where
  "ripple_force x y particle =
     (100 - sqrt ((x - targetX particle) * (x - targetX particle)
                  + (y - targetY particle) * (y - targetY particle))) / 100"

definition ripple_near :: "real \<Rightarrow> real \<Rightarrow> Particle \<Rightarrow> bool" where
  "ripple_near x y particle \<longleftrightarrow>
     formed particle \<and> sqrt ((x - targetX particle) * (x - targetX particle)
                            + (y - targetY particle) * (y - targetY particle)) < 100"

definition ripple_step :: "real \<Rightarrow> real \<Rightarrow> Particle \<Rightarrow> Particle" where
  "ripple_step x y particle =
    (if formed particle
     then (let dx = x - targetX particle;
               dy = y - targetY particle;
               distance = sqrt (dx * dx + dy * dy)
           in if distance < 100
              then (let force = (100 - distance) / 100
                    in particle\<lparr>mouseOffsetX := - dx * force * 25,
                                mouseOffsetY := - dy * force * 25\<rparr>)
              else particle)
     else particle)"

definition createRippleEffect :: "real \<Rightarrow> real \<Rightarrow> Component \<Rightarrow> Component" where
  "createRippleEffect x y s =
    (case svgRef s of
       None \<Rightarrow> s
     | Some children \<Rightarrow>
        s\<lparr>svgRef := Some (children @ [Ripple x y]),
          tweens := tweens s @ [RippleRing x y]
            @ map (\<lambda>k. Pulse k (1 + ripple_force x y (particles s ! k) * 0.6) 0.8)
                (filter (\<lambda>k. ripple_near x y (particles s ! k)) [0..<length (particles s)]),
          particles := map (ripple_step x y) (particles s)\<rparr>)"

definition handleClick :: "MouseEvent \<Rightarrow> DOMRect \<Rightarrow> Component \<Rightarrow> Component" where
  "handleClick e rect s =
    (if svgRef s = None \<or> \<not> isFormed s then s
     else
      (let clickX = clientX e - rect_left rect;
           clickY = clientY e - rect_top rect
       in createRippleEffect clickX clickY s))"

text \<open>The effect that initialises the particle system when the component mounts.\<close>

definition mount_effect :: "(nat \<Rightarrow> real) \<Rightarrow> real \<Rightarrow> real \<Rightarrow> Component \<Rightarrow> Component" where
  "mount_effect rnd innerWidth innerHeight s =
    (case createParticleSystem rnd innerWidth innerHeight s of
       None \<Rightarrow> s
     | Some (newParticles, s1) \<Rightarrow> animateFormation newParticles s1)"

text \<open>
  \<open>resetAnimation\<close> starts the scatter timeline: for the particle of index \<open>k\<close> an
  edge position (two draws) and a duration (one draw). \<open>scatterComplete\<close> is the
  timeline's \<open>onComplete\<close>, with draws of its own for the new start positions.
\<close>

definition scatter_target :: "(nat \<Rightarrow> real) \<Rightarrow> real \<Rightarrow> real \<Rightarrow> nat \<Rightarrow> real \<times> real \<times> real" where
  "scatter_target rnd innerWidth innerHeight k =
    (let edgePos = getEdgePosition (rnd (3 * k)) (rnd (3 * k + 1)) innerWidth innerHeight
     in (fst edgePos, snd edgePos, 2 + rnd (3 * k + 2) * 0.5))"

definition resetAnimation :: "(nat \<Rightarrow> real) \<Rightarrow> real \<Rightarrow> real \<Rightarrow> Component \<Rightarrow> Component" where
  "resetAnimation rnd innerWidth innerHeight s =
    (if isResetting s then s
     else s\<lparr>isResetting := True, isFormed := False, formationProgress := 0,
            tweens := tweens s @ [Scatter (map (scatter_target rnd innerWidth innerHeight)
                                              [0..<length (particles s)])]\<rparr>)"

definition reset_particle :: "real \<times> real \<Rightarrow> Particle \<Rightarrow> Particle" where
  "reset_particle newStart particle =
    particle\<lparr>formed := False, progress := 0,
             startX := fst newStart, startY := snd newStart,
             targetX := originalTargetX particle, targetY := originalTargetY particle,
             mouseOffsetX := 0, mouseOffsetY := 0\<rparr>"

definition scatterComplete :: "(nat \<Rightarrow> real) \<Rightarrow> real \<Rightarrow> real \<Rightarrow> Component \<Rightarrow> Component" where
  "scatterComplete rnd innerWidth innerHeight s =
    (let s1 = s\<lparr>particles := map (\<lambda>(k, particle).
                  reset_particle (getEdgePosition (rnd (2 * k)) (rnd (2 * k + 1))
                                    innerWidth innerHeight) particle)
                (enumerate 0 (particles s))\<rparr>
     in (animateFormation (particles s1) s1)\<lparr>isResetting := False\<rparr>)"

text \<open>The imperative handle given to the host.\<close>

definition transformToButterly :: "Component \<Rightarrow> Component" where
  "transformToButterly s = s"

definition resetParticles :: "(nat \<Rightarrow> real) \<Rightarrow> real \<Rightarrow> real \<Rightarrow> Component \<Rightarrow> Component" where
  "resetParticles = resetAnimation"

record Stats =
  stat_particleCount :: nat
  stat_formationProgress :: int
  stat_fps :: real

definition getStats :: "Component \<Rightarrow> Stats" where
  "getStats s = \<lparr>stat_particleCount = length (filter formed (particles s)),
                 stat_formationProgress = \<lfloor>formationProgress s * 100 + 0.5\<rfloor>,
                 stat_fps = fps s\<rparr>"

section \<open>The host page\<close>

text \<open>
  The state of the page that hosts the component, with the GSAP tween and the timer
  that \<open>handleTransform\<close> starts kept as values.
\<close>

datatype host_job = ProgressTween real | TransformTimeout real

record Index =
  host_isTransformed :: bool
  host_particleCount :: int
  transformProgress :: real
  showStats :: bool
  isAnimating :: bool
  host_fps :: real
  host_jobs :: "host_job list"

definition handleTransform :: "Index \<Rightarrow> Index" where
  "handleTransform h =
    (if isAnimating h then h
     else h\<lparr>isAnimating := True, transformProgress := 0,
            host_jobs := host_jobs h @ [ProgressTween 2.5, TransformTimeout 2500]\<rparr>)"

text \<open>The callback of the timer, 2500 ms later.\<close>

definition transformTimeout :: "Index \<Rightarrow> Index" where
  "transformTimeout h = h\<lparr>host_isTransformed := True, isAnimating := False\<rparr>"

section \<open>Derived notions and sample values\<close>

text \<open>The terms of the series of the arc tangent, for the bounds on \<open>\<pi>\<close>.\<close>

definition arctan_term :: "real \<Rightarrow> nat \<Rightarrow> real" where
  "arctan_term x k = 1 / real (k * 2 + 1) * x ^ (k * 2 + 1)"


text \<open>
  A formation timeline that runs to its end: every particle goes through its ticks (the
  ticks \<open>ticks k\<close> for the particle of index \<open>k\<close>, then the last one at 1), the
  published progress reaches 1 and \<open>onComplete\<close> runs.
\<close>

definition formation_finish :: "(nat \<Rightarrow> real list) \<Rightarrow> Component \<Rightarrow> Component" where
  "formation_finish ticks s =
    formationComplete
      (s\<lparr>particles := map (\<lambda>(k, particle). formation_complete_run (ticks k) particle)
                         (enumerate 0 (particles s)),
         formationProgress := 1\<rparr>)"

text \<open>Where a particle is drawn: the centre of its circle.\<close>

definition rendered :: "Particle \<Rightarrow> real \<times> real" where
  "rendered particle = (attr_cx (element particle), attr_cy (element particle))"

text \<open>
  Sample values: a formed particle with a mouse offset, an unformed one, a component
  holding both after a formation, and a host page in the middle of a transformation.
\<close>

definition example_formed :: Particle where
  "example_formed =
    \<lparr>element = \<lparr>attr_cx = 960, attr_cy = 490, attr_r = 2, attr_fill = ''#FFD700'',
                 attr_opacity = 0.5, css_scale = 1.2, css_opacity = 0.9\<rparr>,
     startX = - 150, startY = 300, targetX = 960, targetY = 490, progress = 1,
     speed = 0.02, p_type = UpperWing, formed = True, radius = 2,
     originalColor = ''#FFD700'', floatPhase = 0, floatSpeed = 1 / 2, floatAmplitude = 4,
     mouseOffsetX = 10, mouseOffsetY = - 5, originalTargetX = 960, originalTargetY = 490\<rparr>"

text \<open>A particle about to arrive at the target (1/2, 1/4) from the left edge.\<close>

definition example_arriving :: Particle where
  "example_arriving =
    example_formed\<lparr>startX := - 150, startY := 300, targetX := 1 / 2, targetY := 1 / 4,
      originalTargetX := 1 / 2, originalTargetY := 1 / 4, formed := False, progress := 1,
      mouseOffsetX := 0, mouseOffsetY := 0\<rparr>"

definition example_unformed :: Particle where
  "example_unformed =
    example_formed\<lparr>formed := False, progress := 1 / 2, mouseOffsetX := 0, mouseOffsetY := 0\<rparr>"

definition example_component :: Component where
  "example_component =
    \<lparr>particleCount = 2, isTransformed = False, svgRef = Some [Circle 0, Circle 1],
     particles = [example_formed, example_unformed], butterflyPoints = [],
     isFormed = True, formationProgress = 1, fps = 60, isResetting = False,
     mouseRef = (0, 0), tweens = []\<rparr>"

definition example_host :: Index where
  "example_host =
    \<lparr>host_isTransformed = False, host_particleCount = 1500, transformProgress = 40,
     showStats = True, isAnimating = True, host_fps = 60,
     host_jobs = [ProgressTween 2.5, TransformTimeout 2500]\<rparr>"

section \<open>Properties of the shape generator\<close>

lemma for_lt_fold: "for_lt bound f i s = fold f [i..\<lceil>bound\<rceil> - 1] s"
proof (induction bound f i s rule: for_lt.induct)
  case (1 bound f i s)
  show ?case
  proof (cases "real_of_int i < bound")
    case True
    then have "i \<le> \<lceil>bound\<rceil> - 1" by (simp add: less_ceiling_iff)
    then have "[i..\<lceil>bound\<rceil> - 1] = i # [i + 1..\<lceil>bound\<rceil> - 1]" by (rule upto_rec1)
    with True "1.IH" show ?thesis by (subst for_lt.simps) simp
  next
    case False
    then have "\<lceil>bound\<rceil> \<le> i" by (simp add: ceiling_le_iff)
    then have "\<lceil>bound\<rceil> - 1 < i" by simp
    with False show ?thesis by (subst for_lt.simps) simp
  qed
qed

lemma fold_push_points:
  assumes "\<And>i st. points (step i st) = points st @ [g i]"
  shows "points (fold step xs st) = points st @ map g xs"
  using assms by (induction xs arbitrary: st) simp_all

lemma points_note_div [simp]: "points (note_div d st) = points st"
  by (simp add: note_div_def)

lemma points_push [simp]: "points (push p st) = points st @ [p]"
  by (simp add: push_def)

lemma divisors_note_div [simp]: "divisors (note_div d st) = divisors st @ [d]"
  by (simp add: note_div_def)

lemma divisors_push [simp]: "divisors (push p st) = divisors st"
  by (simp add: push_def)

lemma length_half_rounds: "length (half_rounds n) = nat ((n + 1) div 2)"
proof -
  have "\<lfloor>real_of_int (- n) / real_of_int 2\<rfloor> = (- n) div 2"
    by (rule floor_divide_of_int_eq)
  then have "\<lceil>real_of_int n / 2\<rceil> = - ((- n) div 2)"
    by (simp add: ceiling_def)
  also have "\<dots> = (n + 1) div 2" by presburger
  finally have "\<lceil>real_of_int n / 2\<rceil> = (n + 1) div 2" .
  then show ?thesis by (simp add: half_rounds_def)
qed

lemma body_iter_points:
  "\<exists>new. points (body_iter bp cx cy sc i st) = points st @ new
     \<and> (\<forall>p\<in>set new. pt_type p = Body \<and> pt_color p = ''#8B4513'')
     \<and> int (length new) = max 0 (min 2 (bp - int (length (points st))))"
proof -
  consider "bp \<le> int (length (points st))"
    | "bp = int (length (points st)) + 1"
    | "int (length (points st)) + 1 < bp" by linarith
  then show ?thesis
  proof cases
    case 1
    then show ?thesis by (simp add: body_iter_def Let_def)
  next
    case 2
    then show ?thesis by (simp add: body_iter_def Let_def body_point_def)
  next
    case 3
    then show ?thesis by (simp add: body_iter_def Let_def body_point_def)
  qed
qed

lemma body_fold_points:
  "\<exists>new. points (fold (body_iter bp cx cy sc) xs st) = points st @ new
     \<and> (\<forall>p\<in>set new. pt_type p = Body \<and> pt_color p = ''#8B4513'')
     \<and> int (length new) = max 0 (min (2 * int (length xs)) (bp - int (length (points st))))"
proof (induction xs arbitrary: st)
  case Nil
  show ?case by simp
next
  case (Cons i xs)
  obtain n1 where n1: "points (body_iter bp cx cy sc i st) = points st @ n1"
    "\<forall>p\<in>set n1. pt_type p = Body \<and> pt_color p = ''#8B4513''"
    "int (length n1) = max 0 (min 2 (bp - int (length (points st))))"
    using body_iter_points by blast
  obtain n2 where n2: "points (fold (body_iter bp cx cy sc) xs (body_iter bp cx cy sc i st))
       = points (body_iter bp cx cy sc i st) @ n2"
    "\<forall>p\<in>set n2. pt_type p = Body \<and> pt_color p = ''#8B4513''"
    "int (length n2) = max 0 (min (2 * int (length xs))
        (bp - int (length (points (body_iter bp cx cy sc i st)))))"
    using Cons.IH by blast
  have len: "int (length (n1 @ n2))
      = max 0 (min (2 * int (length (i # xs))) (bp - int (length (points st))))"
  proof -
    have "int (length (points (body_iter bp cx cy sc i st))) = int (length (points st)) + int (length n1)"
      using n1(1) by simp
    then have "int (length n2) = max 0 (min (2 * int (length xs))
        (bp - (int (length (points st)) + int (length n1))))"
      using n2(3) by simp
    moreover have "int (length (n1 @ n2)) = int (length n1) + int (length n2)" by simp
    moreover have "int (length (i # xs)) = int (length xs) + 1" by simp
    ultimately show ?thesis using n1(3) by linarith
  qed
  have "points (fold (body_iter bp cx cy sc) (i # xs) st) = points st @ (n1 @ n2)"
    using n1(1) n2(1) by simp
  moreover have "\<forall>p\<in>set (n1 @ n2). pt_type p = Body \<and> pt_color p = ''#8B4513''"
    using n1(2) n2(2) by auto
  ultimately show ?case using len by blast
qed

lemma body_loop_points:
  "\<exists>bs. points (for_lt (of_int bp) (body_iter bp cx cy sc) 0 \<lparr>points = [], divisors = []\<rparr>) = bs
     \<and> (\<forall>p\<in>set bs. pt_type p = Body \<and> pt_color p = ''#8B4513'')
     \<and> length bs = nat bp"
proof -
  define st0 where "st0 = \<lparr>points = [], divisors = []\<rparr>"
  define xs where "xs = [0..bp - 1]"
  obtain new where new:
    "points (fold (body_iter bp cx cy sc) xs st0) = points st0 @ new"
    "\<forall>p\<in>set new. pt_type p = Body \<and> pt_color p = ''#8B4513''"
    "int (length new) = max 0 (min (2 * int (length xs)) (bp - int (length (points st0))))"
    using body_fold_points by blast
  have "int (length xs) = max 0 bp" by (simp add: xs_def)
  moreover have "int (length (points st0)) = 0" by (simp add: st0_def)
  ultimately have "int (length new) = max 0 bp" using new(3) by linarith
  then have len: "length new = nat bp" by linarith
  have "for_lt (of_int bp) (body_iter bp cx cy sc) 0 st0 = fold (body_iter bp cx cy sc) xs st0"
    by (simp add: for_lt_fold xs_def)
  then have "points (for_lt (of_int bp) (body_iter bp cx cy sc) 0 st0) = new"
    using new(1) by (simp add: st0_def)
  with new(2) len show ?thesis unfolding st0_def by blast
qed

lemma half_loop_points:
  assumes "\<And>i st. points (step i st) = points st @ [g i]"
  shows "points (for_lt (of_int n / 2) step 0 st) = points st @ map g (half_rounds n)"
  by (simp add: for_lt_fold half_rounds_def fold_push_points [of step g, OF assms])

lemma sides_loop_points:
  assumes "\<And>side i st. points (step side i st) = points st @ [g side i]"
  shows "points (for_sides (\<lambda>side. for_lt (of_int n / 2) (step side) 0) st)
    = points st @ map (g (- 1)) (half_rounds n) @ map (g 1) (half_rounds n)"
  by (simp add: for_sides_def half_loop_points [of "step _" "g _", OF assms])

lemma count_type_append [simp]: "count_type t (ps @ qs) = count_type t ps + count_type t qs"
  by (simp add: count_type_def)

lemma count_type_all:
  assumes "\<forall>p\<in>set ps. pt_type p = T"
  shows "count_type t ps = (if t = T then length ps else 0)"
  using assms by (induction ps) (auto simp: count_type_def)

lemma floor_015: "\<lfloor>real_of_int N * 0.15\<rfloor> = (N * 15) div 100"
proof -
  have "real_of_int N * 0.15 = real_of_int (N * 15) / real_of_int 100" by simp
  then show ?thesis by (simp only: floor_divide_of_int_eq)
qed

lemma floor_005: "\<lfloor>real_of_int N * 0.05\<rfloor> = (N * 5) div 100"
proof -
  have "real_of_int N * 0.05 = real_of_int (N * 5) / real_of_int 100" by simp
  then show ?thesis by (simp only: floor_divide_of_int_eq)
qed

lemma floor_06: "\<lfloor>real_of_int N * 0.6\<rfloor> = (N * 6) div 10"
proof -
  have "real_of_int N * 0.6 = real_of_int (N * 6) / real_of_int 10" by simp
  then show ?thesis by (simp only: floor_divide_of_int_eq)
qed

lemma points_antenna_iter:
  "points (antenna_iter a cx cy sc side i st) = points st @ [antenna_point a cx cy sc side i]"
  by (simp add: antenna_iter_def)

lemma points_upper_iter:
  "points (upper_iter u cx cy sc side i st) = points st @ [upper_point u cx cy sc side i]"
  by (simp add: upper_iter_def)

lemma points_lower_iter:
  "points (lower_iter l cx cy sc side i st) = points st @ [lower_point l cx cy sc side i]"
  by (simp add: lower_iter_def)

lemma points_upper_sides:
  "points (for_sides (\<lambda>side. for_lt (of_int u / 2) (upper_iter u cx cy sc side) 0) st)
    = points st @ map (upper_point u cx cy sc (- 1)) (half_rounds u)
        @ map (upper_point u cx cy sc 1) (half_rounds u)"
  by (rule sides_loop_points) (rule points_upper_iter)

lemma points_lower_sides:
  "points (for_sides (\<lambda>side. for_lt (of_int l / 2) (lower_iter l cx cy sc side) 0) st)
    = points st @ map (lower_point l cx cy sc (- 1)) (half_rounds l)
        @ map (lower_point l cx cy sc 1) (half_rounds l)"
  by (rule sides_loop_points) (rule points_lower_iter)

lemma points_antenna_sides:
  "points (for_sides (\<lambda>side. for_lt (of_int a / 2) (antenna_iter a cx cy sc side) 0) st)
    = points st @ map (antenna_point a cx cy sc (- 1)) (half_rounds a)
        @ map (antenna_point a cx cy sc 1) (half_rounds a)"
  by (rule sides_loop_points) (rule points_antenna_iter)

lemma points_generateWings:
  "points (generateWings cx cy sc W st) =
     points st
     @ map (upper_point ((W * 6) div 10) cx cy sc (- 1)) (half_rounds ((W * 6) div 10))
     @ map (upper_point ((W * 6) div 10) cx cy sc 1) (half_rounds ((W * 6) div 10))
     @ map (lower_point (W - (W * 6) div 10) cx cy sc (- 1)) (half_rounds (W - (W * 6) div 10))
     @ map (lower_point (W - (W * 6) div 10) cx cy sc 1) (half_rounds (W - (W * 6) div 10))"
  by (simp only: generateWings_def Let_def floor_06 points_upper_sides points_lower_sides
        append_assoc)

lemma run_unfold:
  fixes N :: int and w h :: real
  defines "b \<equiv> (N * 15) div 100" and "a \<equiv> (N * 5) div 100"
  defines "cx \<equiv> w / 2" and "cy \<equiv> h / 2 - 50" and "sc \<equiv> min w h / 800"
  defines "W \<equiv> N - (max 0 b + 2 * max 0 ((a + 1) div 2))"
  shows "generateButterflyShape_run N w h =
    generateWings cx cy sc W
      (for_sides (\<lambda>side. for_lt (of_int a / 2) (antenna_iter a cx cy sc side) 0)
        (for_lt (of_int b) (body_iter b cx cy sc) 0 \<lparr>points = [], divisors = []\<rparr>))"
proof -
  define st1 where "st1 = for_lt (of_int b) (body_iter b cx cy sc) 0 \<lparr>points = [], divisors = []\<rparr>"
  define st2 where "st2 = for_sides (\<lambda>side. for_lt (of_int a / 2) (antenna_iter a cx cy sc side) 0) st1"
  obtain bs where bs: "points st1 = bs" "length bs = nat b"
    unfolding st1_def using body_loop_points by blast
  have p2: "points st2 = bs @ map (antenna_point a cx cy sc (- 1)) (half_rounds a)
      @ map (antenna_point a cx cy sc 1) (half_rounds a)"
    unfolding st2_def by (simp only: points_antenna_sides bs(1) append_assoc)
  have "int (length (points st2)) = max 0 b + 2 * max 0 ((a + 1) div 2)"
    by (simp add: p2 bs(2) length_half_rounds)
  then have W: "N - int (length (points st2)) = W" by (simp add: W_def)
  show ?thesis
    unfolding generateButterflyShape_run_def Let_def floor_015 floor_005
    by (simp only: W st1_def st2_def b_def a_def cx_def cy_def sc_def flip: W)
qed

lemma points_run:
  fixes N :: int and w h :: real
  defines "b \<equiv> (N * 15) div 100" and "a \<equiv> (N * 5) div 100"
  defines "cx \<equiv> w / 2" and "cy \<equiv> h / 2 - 50" and "sc \<equiv> min w h / 800"
  defines "W \<equiv> N - (max 0 b + 2 * max 0 ((a + 1) div 2))"
  shows "\<exists>bs. generateButterflyShape N w h =
     bs
     @ (map (antenna_point a cx cy sc (- 1)) (half_rounds a)
     @ map (antenna_point a cx cy sc 1) (half_rounds a))
     @ map (upper_point ((W * 6) div 10) cx cy sc (- 1)) (half_rounds ((W * 6) div 10))
     @ map (upper_point ((W * 6) div 10) cx cy sc 1) (half_rounds ((W * 6) div 10))
     @ map (lower_point (W - (W * 6) div 10) cx cy sc (- 1)) (half_rounds (W - (W * 6) div 10))
     @ map (lower_point (W - (W * 6) div 10) cx cy sc 1) (half_rounds (W - (W * 6) div 10))
   \<and> (\<forall>p\<in>set bs. pt_type p = Body \<and> pt_color p = ''#8B4513'')
   \<and> length bs = nat b"
proof -
  obtain bs where bs:
    "points (for_lt (of_int b) (body_iter b cx cy sc) 0 \<lparr>points = [], divisors = []\<rparr>) = bs"
    "\<forall>p\<in>set bs. pt_type p = Body \<and> pt_color p = ''#8B4513''" "length bs = nat b"
    using body_loop_points by blast
  have "generateButterflyShape N w h = bs
     @ (map (antenna_point a cx cy sc (- 1)) (half_rounds a)
     @ map (antenna_point a cx cy sc 1) (half_rounds a))
     @ map (upper_point ((W * 6) div 10) cx cy sc (- 1)) (half_rounds ((W * 6) div 10))
     @ map (upper_point ((W * 6) div 10) cx cy sc 1) (half_rounds ((W * 6) div 10))
     @ map (lower_point (W - (W * 6) div 10) cx cy sc (- 1)) (half_rounds (W - (W * 6) div 10))
     @ map (lower_point (W - (W * 6) div 10) cx cy sc 1) (half_rounds (W - (W * 6) div 10))"
    unfolding generateButterflyShape_def run_unfold
    by (simp only: points_generateWings points_antenna_sides
          bs(1) [unfolded b_def cx_def cy_def sc_def] append_assoc
          b_def a_def cx_def cy_def sc_def W_def)
  with bs(2,3) show ?thesis by blast
qed

lemma type_antenna_point [simp]: "pt_type (antenna_point a cx cy sc side i) = Antenna"
  by (simp add: antenna_point_def Let_def)

lemma type_upper_point [simp]: "pt_type (upper_point u cx cy sc side i) = UpperWing"
  by (simp add: upper_point_def Let_def)

lemma type_lower_point [simp]: "pt_type (lower_point l cx cy sc side i) = LowerWing"
  by (simp add: lower_point_def Let_def)

lemma count_type_map:
  assumes "\<And>i. pt_type (g i) = T"
  shows "count_type t (map g xs) = (if t = T then length xs else 0)"
  by (induction xs) (simp_all add: count_type_def assms)

lemma generateButterflyShape_counts:
  fixes N :: int and w h :: real
  defines "b \<equiv> (N * 15) div 100" and "a \<equiv> (N * 5) div 100"
  defines "W \<equiv> N - (max 0 b + 2 * max 0 ((a + 1) div 2))"
  defines "ps \<equiv> generateButterflyShape N w h"
  shows "int (count_type Body ps) = max 0 b"
    and "int (count_type Antenna ps) = 2 * max 0 ((a + 1) div 2)"
    and "int (count_type UpperWing ps) = 2 * max 0 (((W * 6) div 10 + 1) div 2)"
    and "int (count_type LowerWing ps) = 2 * max 0 ((W - (W * 6) div 10 + 1) div 2)"
    and "int (length ps) = max 0 b + 2 * max 0 ((a + 1) div 2)
           + 2 * max 0 (((W * 6) div 10 + 1) div 2)
           + 2 * max 0 ((W - (W * 6) div 10 + 1) div 2)"
proof -
  obtain bs where ps: "ps = bs
     @ (map (antenna_point a (w / 2) (h / 2 - 50) (min w h / 800) (- 1)) (half_rounds a)
     @ map (antenna_point a (w / 2) (h / 2 - 50) (min w h / 800) 1) (half_rounds a))
     @ map (upper_point ((W * 6) div 10) (w / 2) (h / 2 - 50) (min w h / 800) (- 1)) (half_rounds ((W * 6) div 10))
     @ map (upper_point ((W * 6) div 10) (w / 2) (h / 2 - 50) (min w h / 800) 1) (half_rounds ((W * 6) div 10))
     @ map (lower_point (W - (W * 6) div 10) (w / 2) (h / 2 - 50) (min w h / 800) (- 1)) (half_rounds (W - (W * 6) div 10))
     @ map (lower_point (W - (W * 6) div 10) (w / 2) (h / 2 - 50) (min w h / 800) 1) (half_rounds (W - (W * 6) div 10))"
    and bs: "\<forall>p\<in>set bs. pt_type p = Body" "length bs = nat b"
    unfolding ps_def W_def a_def b_def using points_run [of N w h] by blast
  have cb: "\<And>t. count_type t bs = (if t = Body then nat b else 0)"
    using count_type_all [OF bs(1)] bs(2) by simp
  show "int (count_type Body ps) = max 0 b"
    by (simp add: ps cb count_type_map [where T = Antenna] count_type_map [where T = UpperWing]
          count_type_map [where T = LowerWing])
  show "int (count_type Antenna ps) = 2 * max 0 ((a + 1) div 2)"
    by (simp add: ps cb count_type_map [where T = Antenna] count_type_map [where T = UpperWing]
          count_type_map [where T = LowerWing] length_half_rounds)
  show "int (count_type UpperWing ps) = 2 * max 0 (((W * 6) div 10 + 1) div 2)"
    by (simp add: ps cb count_type_map [where T = Antenna] count_type_map [where T = UpperWing]
          count_type_map [where T = LowerWing] length_half_rounds)
  show "int (count_type LowerWing ps) = 2 * max 0 ((W - (W * 6) div 10 + 1) div 2)"
    by (simp add: ps cb count_type_map [where T = Antenna] count_type_map [where T = UpperWing]
          count_type_map [where T = LowerWing] length_half_rounds)
  show "int (length ps) = max 0 b + 2 * max 0 ((a + 1) div 2)
           + 2 * max 0 (((W * 6) div 10 + 1) div 2)
           + 2 * max 0 ((W - (W * 6) div 10 + 1) div 2)"
    by (simp add: ps bs(2) length_half_rounds)
qed

lemma counts_1500:
  "length (generateButterflyShape 1500 w h) = 1501"
  "count_type Body (generateButterflyShape 1500 w h) = 225"
  "count_type Antenna (generateButterflyShape 1500 w h) = 76"
  "count_type UpperWing (generateButterflyShape 1500 w h) = 720"
  "count_type LowerWing (generateButterflyShape 1500 w h) = 480"
  using generateButterflyShape_counts [of 1500 w h] by simp_all

lemma counts_21:
  "length (generateButterflyShape 21 w h) = 23"
  "count_type Body (generateButterflyShape 21 w h) = 3"
  "count_type Antenna (generateButterflyShape 21 w h) = 2"
  "count_type UpperWing (generateButterflyShape 21 w h) = 10"
  "count_type LowerWing (generateButterflyShape 21 w h) = 8"
  using generateButterflyShape_counts [of 21 w h] by simp_all

subsection \<open>The divisors of the generator\<close>

lemma fold_divisors:
  assumes "\<And>i st. divisors (step i st) = divisors st @ [d]"
  shows "divisors (fold step xs st) = divisors st @ replicate (length xs) d"
  using assms by (induction xs arbitrary: st) (simp_all add: replicate_app_Cons_same)

lemma divisors_body_iter:
  "divisors (body_iter bp cx cy sc i st) = divisors st @ [of_int (bp - 1)]"
  by (simp add: body_iter_def Let_def)

lemma divisors_antenna_iter:
  "divisors (antenna_iter a cx cy sc side i st) = divisors st @ [of_int a / 2 - 1]"
  by (simp add: antenna_iter_def)

lemma divisors_upper_iter:
  "divisors (upper_iter u cx cy sc side i st) = divisors st @ [of_int u / 2]"
  by (simp add: upper_iter_def)

lemma divisors_lower_iter:
  "divisors (lower_iter l cx cy sc side i st) = divisors st @ [of_int l / 2]"
  by (simp add: lower_iter_def)

lemma sides_loop_divisors:
  assumes "\<And>side i st. divisors (step side i st) = divisors st @ [d]"
  shows "divisors (for_sides (\<lambda>side. for_lt (of_int n / 2) (step side) 0) st)
    = divisors st @ replicate (2 * nat ((n + 1) div 2)) d"
proof -
  have "\<And>side st. divisors (for_lt (of_int n / 2) (step side) 0 st)
      = divisors st @ replicate (nat ((n + 1) div 2)) d"
    using fold_divisors [of "step _" d, OF assms] length_half_rounds [of n]
    by (simp add: for_lt_fold half_rounds_def)
  then show ?thesis
    by (simp add: for_sides_def mult_2 replicate_add)
qed

lemma divisors_body_loop:
  "divisors (for_lt (of_int b) (body_iter b cx cy sc) 0 st)
    = divisors st @ replicate (nat b) (of_int (b - 1))"
  using fold_divisors [of "body_iter b cx cy sc" "of_int (b - 1)", OF divisors_body_iter]
  by (simp add: for_lt_fold)

lemma divisors_generateWings:
  "divisors (generateWings cx cy sc W st) =
     divisors st
     @ replicate (2 * nat (((W * 6) div 10 + 1) div 2)) (of_int ((W * 6) div 10) / 2)
     @ replicate (2 * nat ((W - (W * 6) div 10 + 1) div 2)) (of_int (W - (W * 6) div 10) / 2)"
  by (simp only: generateWings_def Let_def floor_06
        sides_loop_divisors [of "upper_iter _ cx cy sc", OF divisors_upper_iter]
        sides_loop_divisors [of "lower_iter _ cx cy sc", OF divisors_lower_iter]
        append_assoc)

lemma divisors_run:
  fixes N :: int and w h :: real
  defines "b \<equiv> (N * 15) div 100" and "a \<equiv> (N * 5) div 100"
  defines "W \<equiv> N - (max 0 b + 2 * max 0 ((a + 1) div 2))"
  shows "divisors (generateButterflyShape_run N w h) =
     replicate (nat b) (of_int (b - 1))
     @ replicate (2 * nat ((a + 1) div 2)) (of_int a / 2 - 1)
     @ replicate (2 * nat (((W * 6) div 10 + 1) div 2)) (of_int ((W * 6) div 10) / 2)
     @ replicate (2 * nat ((W - (W * 6) div 10 + 1) div 2)) (of_int (W - (W * 6) div 10) / 2)"
  unfolding run_unfold b_def a_def W_def
  by (simp only: divisors_generateWings divisors_body_loop
        sides_loop_divisors [of "antenna_iter _ _ _ _", OF divisors_antenna_iter]
        gen_state.simps append_Nil append_assoc)

lemma div_nonpos:
  fixes x c d :: int
  assumes "x \<le> c" and "0 < d" and "c div d = 0"
  shows "x div d \<le> 0"
  using zdiv_mono1 [OF assms(1,2)] assms(3) by simp

lemma divisors_run_1: "divisors (generateButterflyShape_run 1 w h) = [1 / 2, 1 / 2]"
  unfolding divisors_run by (simp add: numeral_2_eq_2)

text \<open>
  Claim C8. For a degenerate particle count (at most 1), no division that
  \<open>generateButterflyShape\<close> and \<open>generateWings\<close> evaluate has a zero divisor: the
  body, antenna and upper-wing loops run no round, and the lower-wing loop runs only for
  the count 1, dividing by 1/2.
\<close>

theorem no_zero_divisor_degenerate:
  assumes "N \<le> 1"
  shows "0 \<notin> set (divisors (generateButterflyShape_run N w h))"
proof -
  have b: "(N * 15) div 100 \<le> 0"
    by (rule div_nonpos [where c = 15]) (use assms in simp_all)
  have "(N * 5) div 100 \<le> 0"
    by (rule div_nonpos [where c = 5]) (use assms in simp_all)
  then have a: "((N * 5) div 100 + 1) div 2 \<le> 0"
    by (intro div_nonpos [where c = 1]) simp_all
  have W: "N - (max 0 ((N * 15) div 100) + 2 * max 0 (((N * 5) div 100 + 1) div 2)) = N"
    using a b by simp
  have "(N * 6) div 10 \<le> 0"
    by (rule div_nonpos [where c = 6]) (use assms in simp_all)
  then have u: "((N * 6) div 10 + 1) div 2 \<le> 0"
    by (intro div_nonpos [where c = 1]) simp_all
  have l: "real_of_int (N - (N * 6) div 10) / 2 \<noteq> 0" if "0 < (N - (N * 6) div 10 + 1) div 2"
  proof
    assume "real_of_int (N - (N * 6) div 10) / 2 = 0"
    then have "N - (N * 6) div 10 = 0" by simp
    with that show False by simp
  qed
  have nb: "nat ((N * 15) div 100) = 0" using b by simp
  have na: "nat (((N * 5) div 100 + 1) div 2) = 0" using a by simp
  have nu: "nat (((N * 6) div 10 + 1) div 2) = 0" using u by simp
  have "divisors (generateButterflyShape_run N w h) =
      replicate (2 * nat ((N - (N * 6) div 10 + 1) div 2)) (real_of_int (N - (N * 6) div 10) / 2)"
    unfolding divisors_run W by (simp only: nb na nu mult_0_right replicate_0 append_Nil)
  then show ?thesis using l by (auto simp: set_replicate_conv_if)
qed

theorem no_zero_divisor_degenerate_witness:
  "(1::int) \<le> 1 \<and> divisors (generateButterflyShape_run 1 1920 1080) = [1 / 2, 1 / 2]
     \<and> 0 \<notin> set (divisors (generateButterflyShape_run 1 1920 1080))"
  using no_zero_divisor_degenerate [of 1 1920 1080] divisors_run_1 [of 1920 1080] by simp

subsection \<open>Points, types and colours\<close>

lemma getWingColor_cases:
  "getWingColor x y cx cy \<in> {''#DC143C'', ''#1A1A1A'', ''#FFD700''}"
  by (simp add: getWingColor_def Let_def)

lemma well_formed_palette:
  "well_formed_color ''#8B4513''" "well_formed_color ''#1A1A1A''"
  "well_formed_color ''#DC143C''" "well_formed_color ''#FFD700''"
  by (simp_all add: well_formed_color_def)

lemma well_formed_getWingColor: "well_formed_color (getWingColor x y cx cy)"
  using getWingColor_cases [of x y cx cy] well_formed_palette by auto

lemma color_antenna_point [simp]: "pt_color (antenna_point a cx cy sc side i) = ''#1A1A1A''"
  by (simp add: antenna_point_def Let_def)

lemma color_upper_point: "well_formed_color (pt_color (upper_point u cx cy sc side i))"
  by (simp add: upper_point_def Let_def well_formed_getWingColor)

lemma color_lower_point: "well_formed_color (pt_color (lower_point l cx cy sc side i))"
  by (simp add: lower_point_def Let_def well_formed_getWingColor)

lemma generateButterflyShape_colors:
  assumes "p \<in> set (generateButterflyShape N w h)"
  shows "well_formed_color (pt_color p)"
proof -
  obtain bs a u l cx cy sc where ps: "generateButterflyShape N w h = bs
     @ (map (antenna_point a cx cy sc (- 1)) (half_rounds a)
     @ map (antenna_point a cx cy sc 1) (half_rounds a))
     @ map (upper_point u cx cy sc (- 1)) (half_rounds u)
     @ map (upper_point u cx cy sc 1) (half_rounds u)
     @ map (lower_point l cx cy sc (- 1)) (half_rounds l)
     @ map (lower_point l cx cy sc 1) (half_rounds l)"
    and bs: "\<forall>p\<in>set bs. pt_type p = Body \<and> pt_color p = ''#8B4513''"
    using points_run [of N w h] by blast
  from assms show ?thesis unfolding ps
    using bs well_formed_palette color_upper_point color_lower_point by auto
qed

lemma map_snd_enumerate: "map (\<lambda>x. f (snd x)) (enumerate n xs) = map f xs"
  by (induction xs arbitrary: n) simp_all

lemma createParticleSystem_Some:
  assumes "svgRef s = Some ch"
  shows "\<exists>s'. createParticleSystem rnd w h s = Some (particles s', s')
     \<and> length (particles s') = length (generateButterflyShape (particleCount s) w h)
     \<and> map p_type (particles s') = map pt_type (generateButterflyShape (particleCount s) w h)
     \<and> map originalColor (particles s') = map pt_color (generateButterflyShape (particleCount s) w h)
     \<and> map originalTargetX (particles s') = map pt_x (generateButterflyShape (particleCount s) w h)
     \<and> map originalTargetY (particles s') = map pt_y (generateButterflyShape (particleCount s) w h)
     \<and> map targetX (particles s') = map pt_x (generateButterflyShape (particleCount s) w h)
     \<and> map targetY (particles s') = map pt_y (generateButterflyShape (particleCount s) w h)
     \<and> tweens s' = tweens s"
  using assms
  by (simp add: createParticleSystem_def Let_def make_particle_def split_def comp_def
      map_snd_enumerate)

text \<open>
  Claim C1 says that \<open>generateButterflyShape\<close> returns exactly as many points as the
  configured particle count and that \<open>createParticleSystem\<close> creates that many
  particles. At the count the host page configures, 1500, the generator returns 1501
  points for every viewport, and \<open>createParticleSystem\<close> creates 1501 particles: each
  loop over the two sides runs \<open>i < n / 2\<close>, which is one round too many per side pair
  when \<open>n\<close> is odd (75 antenna points asked, 76 made; 719 upper-wing points asked, 720
  made). The types and colours of the points are as the claim says
  (\<open>generateButterflyShape_colors\<close>, \<open>createParticleSystem_Some\<close>).
\<close>

theorem particle_count_1500:
  "length (generateButterflyShape 1500 w h) = 1501
   \<and> map_option (\<lambda>r. length (fst r))
        (createParticleSystem rnd w h (s\<lparr>particleCount := 1500, svgRef := Some ch\<rparr>)) = Some 1501"
proof -
  have "length (generateButterflyShape 1500 w h) = 1501" by (rule counts_1500)
  then show ?thesis by (simp add: createParticleSystem_def Let_def)
qed

text \<open>
  Claim C4 says that the numbers of body, antenna and wing points are within 1 of the
  configured fractions for every count from 20 on. At the count 21 the generator makes
  3 body points and 2 antenna points, which leaves 16 for the wings, and then 10
  upper-wing and 8 lower-wing points: 18 wing points, 2 more than the remainder and more
  than 1 away from 80 percent of 21, with the lower wings more than 1 away from 40 percent
  of the remainder. (At 1500 the counts are 225, 76, 720 and 480, see \<open>counts_1500\<close>.)
\<close>

theorem partition_counts_21:
  "count_type Body (generateButterflyShape 21 w h) = 3
   \<and> count_type Antenna (generateButterflyShape 21 w h) = 2
   \<and> count_type UpperWing (generateButterflyShape 21 w h) = 10
   \<and> count_type LowerWing (generateButterflyShape 21 w h) = 8
   \<and> \<not> \<bar>real (count_type UpperWing (generateButterflyShape 21 w h)
              + count_type LowerWing (generateButterflyShape 21 w h)) - 0.8 * 21\<bar> \<le> 1
   \<and> \<not> \<bar>real (count_type UpperWing (generateButterflyShape 21 w h)
              + count_type LowerWing (generateButterflyShape 21 w h)) - (21 - 3 - 2)\<bar> \<le> 1
   \<and> \<not> \<bar>real (count_type LowerWing (generateButterflyShape 21 w h)) - 0.4 * (21 - 3 - 2)\<bar> \<le> 1"
  by (simp add: counts_21)

section \<open>Properties of the doubles\<close>

lemma arctan_partial_sums:
  assumes "0 \<le> x" "x \<le> 1"
  shows "(\<Sum>i<2 * n. (- 1) ^ i * arctan_term x i) \<le> arctan x"
    and "arctan x \<le> (\<Sum>i<2 * n + 1. (- 1) ^ i * arctan_term x i)"
proof -
  have mono: "arctan_term x (Suc k) \<le> arctan_term x k" for k
  proof -
    have "x ^ (Suc k * 2 + 1) \<le> x ^ (k * 2 + 1)"
      using assms by (intro power_decreasing) simp_all
    moreover have "1 / real (Suc k * 2 + 1) \<le> 1 / real (k * 2 + 1)"
      by (intro divide_left_mono) simp_all
    ultimately show ?thesis
      unfolding arctan_term_def using assms
      by (intro mult_mono) simp_all
  qed
  have pos: "0 \<le> arctan_term x k" for k
    using assms by (simp add: arctan_term_def)
  have lim: "arctan_term x \<longlonglongrightarrow> 0"
  proof -
    have s: "summable (\<lambda>k. (- 1) ^ k * arctan_term x k)"
      unfolding arctan_term_def using summable_arctan_series [of x] assms by simp
    then have "(\<lambda>k. (- 1) ^ k * arctan_term x k) \<longlonglongrightarrow> 0"
      by (rule summable_LIMSEQ_zero)
    then have "(\<lambda>k. \<bar>(- 1) ^ k * arctan_term x k\<bar>) \<longlonglongrightarrow> 0"
      by (simp add: tendsto_rabs_zero_iff)
    then show ?thesis using pos by (simp add: abs_mult)
  qed
  have eq: "arctan x = (\<Sum>k. (- 1) ^ k * arctan_term x k)"
    unfolding arctan_term_def using arctan_series [of x] assms by simp
  show "(\<Sum>i<2 * n. (- 1) ^ i * arctan_term x i) \<le> arctan x"
    unfolding eq by (rule summable_Leibniz'(2) [OF lim pos mono])
  show "arctan x \<le> (\<Sum>i<2 * n + 1. (- 1) ^ i * arctan_term x i)"
    unfolding eq by (rule summable_Leibniz'(4) [OF lim pos mono])
qed

lemma pi_bounds:
  "3.1415926535897932 < pi" "pi < 3.1415926535897933"
proof -
  have a5_lo: "(\<Sum>i<2 * 6. (- 1) ^ i * arctan_term (1 / 5) i) \<le> arctan (1 / 5)"
    by (rule arctan_partial_sums) simp_all
  have a5_hi: "arctan (1 / 5) \<le> (\<Sum>i<2 * 6 + 1. (- 1) ^ i * arctan_term (1 / 5) i)"
    by (rule arctan_partial_sums) simp_all
  have a239_lo: "(\<Sum>i<2 * 2. (- 1) ^ i * arctan_term (1 / 239) i) \<le> arctan (1 / 239)"
    by (rule arctan_partial_sums) simp_all
  have a239_hi: "arctan (1 / 239) \<le> (\<Sum>i<2 * 1 + 1. (- 1) ^ i * arctan_term (1 / 239) i)"
    by (rule arctan_partial_sums) simp_all
  have pi: "pi = 16 * arctan (1 / 5) - 4 * arctan (1 / 239)"
    using machin by simp
  have lo: "3.1415926535897932 <
      16 * (\<Sum>i<2 * 6. (- 1) ^ i * arctan_term (1 / 5) i)
      - 4 * (\<Sum>i<2 * 1 + 1. (- 1) ^ i * arctan_term (1 / 239) i)"
    by (simp add: arctan_term_def eval_nat_numeral)
  have hi: "16 * (\<Sum>i<2 * 6 + 1. (- 1) ^ i * arctan_term (1 / 5) i)
      - 4 * (\<Sum>i<2 * 2. (- 1) ^ i * arctan_term (1 / 239) i) < 3.1415926535897933"
    by (simp add: arctan_term_def eval_nat_numeral)
  show "3.1415926535897932 < pi" using lo a5_lo a239_hi unfolding pi by linarith
  show "pi < 3.1415926535897933" using hi a5_hi a239_lo unfolding pi by linarith
qed

lemma round_ties_even_of_int [simp]: "round_ties_even (of_int k) = k"
  by (simp add: round_ties_even_def)

lemma round_ties_even_near:
  "x - 1 / 2 \<le> of_int (round_ties_even x)" "of_int (round_ties_even x) \<le> x + 1 / 2"
  unfolding round_ties_even_def Let_def by (auto; linarith)+

lemma binade_eq:
  assumes "2 powr of_int e \<le> \<bar>x\<bar>" and "\<bar>x\<bar> < 2 powr of_int (e + 1)" and "- 1022 \<le> e"
  shows "binade x = e"
proof -
  have "0 < \<bar>x\<bar>" using assms(1) powr_gt_zero [of 2 "of_int e"] by linarith
  then have "\<lfloor>log 2 \<bar>x\<bar>\<rfloor> = e"
    using assms(1,2) by (simp add: floor_log_eq_powr_iff)
  then show ?thesis using assms(3) by (simp add: binade_def)
qed

lemma fl_grid:
  assumes "2 ^ 52 \<le> \<bar>k\<bar>" and "\<bar>k\<bar> < 2 ^ 53" and "- 1022 \<le> e"
  shows "fl (of_int k * 2 powr of_int (e - 52)) = of_int k * 2 powr of_int (e - 52)"
proof -
  define x where "x = real_of_int k * 2 powr of_int (e - 52)"
  have k: "(2::real) ^ 52 \<le> \<bar>of_int k\<bar>" "\<bar>real_of_int k\<bar> < 2 ^ 53"
    using assms(1,2) by (metis of_int_abs of_int_le_iff of_int_numeral of_int_power,
        metis of_int_abs of_int_less_iff of_int_numeral of_int_power)
  have absx: "\<bar>x\<bar> = \<bar>real_of_int k\<bar> * 2 powr of_int (e - 52)"
    by (simp add: x_def abs_mult)
  have d: "(2::real) powr of_int (e - 52) = 2 powr of_int e / 2 ^ 52"
    by (simp add: powr_diff)
  have e: "(2::real) powr of_int e = 2 ^ 52 * 2 powr of_int (e - 52)"
    unfolding d by simp
  have e1: "(2::real) powr of_int (e + 1) = 2 ^ 53 * 2 powr of_int (e - 52)"
    unfolding d by (simp add: powr_add)
  have "2 powr of_int e \<le> \<bar>x\<bar>" unfolding absx e using k(1) by simp
  moreover have "\<bar>x\<bar> < 2 powr of_int (e + 1)" unfolding absx e1 using k(2) by simp
  ultimately have b: "binade x = e" using assms(3) by (rule binade_eq)
  have "x \<noteq> 0" using k(1) by (auto simp: x_def)
  then show ?thesis unfolding x_def [symmetric] by (simp add: fl_def b) (simp add: x_def)
qed

lemma fl_rel:
  assumes "2 powr (- 1022) \<le> x"
  shows "x * (1 - 2 powr (- 53)) \<le> fl x" and "fl x \<le> x * (1 + 2 powr (- 53))"
proof -
  have x: "0 < x" using assms powr_gt_zero [of 2 "- 1022"] by linarith
  define e where "e = \<lfloor>log 2 x\<rfloor>"
  have lo: "2 powr of_int e \<le> x" and hi: "x < 2 powr of_int (e + 1)"
    using x floor_log_eq_powr_iff [of x 2 e] by (simp_all add: e_def)
  have "- 1022 \<le> log 2 x" using assms x by (simp add: le_log_iff)
  then have e: "- 1022 \<le> e" unfolding e_def by linarith
  have b: "binade x = e" using binade_eq [of e x] lo hi e x by simp
  define q where "q = (2::real) powr of_int (e - 52)"
  have q: "0 < q" by (simp add: q_def)
  have fl: "fl x = of_int (round_ties_even (x / q)) * q"
    using x by (simp add: fl_def b q_def)
  have "q / 2 = 2 powr of_int e * 2 powr (- 53)"
    by (simp add: q_def flip: powr_add) (simp add: powr_diff)
  also have "\<dots> \<le> x * 2 powr (- 53)" using lo by simp
  finally have half: "q / 2 \<le> x * 2 powr (- 53)" .
  have "x / q - 1 / 2 \<le> of_int (round_ties_even (x / q))"
    and "of_int (round_ties_even (x / q)) \<le> x / q + 1 / 2"
    by (rule round_ties_even_near)+
  then have "(x / q - 1 / 2) * q \<le> fl x" and "fl x \<le> (x / q + 1 / 2) * q"
    unfolding fl using q by (simp_all add: mult_right_mono)
  then have "x - q / 2 \<le> fl x" and "fl x \<le> x + q / 2"
    using q by (simp_all add: algebra_simps)
  then show "x * (1 - 2 powr (- 53)) \<le> fl x" and "fl x \<le> x * (1 + 2 powr (- 53))"
    using half by (simp_all add: algebra_simps)
qed

lemma fl_exact:
  assumes "x = of_int k * 2 powr of_int (e - 52)"
    and "2 ^ 52 \<le> \<bar>k\<bar>" and "\<bar>k\<bar> < 2 ^ 53" and "- 1022 \<le> e"
  shows "fl x = x"
  unfolding assms(1) using assms(2-4) by (rule fl_grid)

lemma fl_one_half: "fl (1 / 2) = 1 / 2"
  by (rule fl_exact [where k = "2 ^ 52" and e = "- 1"]) (simp_all add: powr_neg_numeral)

lemma fl_Math_PI: "fl Math_PI = Math_PI"
  by (rule fl_exact [where k = 7074237752028440 and e = 1]) (simp_all add: Math_PI_def powr_neg_numeral)

lemma fl_Math_PI_2: "fl (Math_PI * 2) = Math_PI * 2"
  by (rule fl_exact [where k = 7074237752028440 and e = 2]) (simp_all add: Math_PI_def powr_neg_numeral)

lemma fl_301_2: "fl (301 / 2) = 301 / 2"
  by (rule fl_exact [where k = 5295247999369216 and e = 7]) (simp_all add: powr_neg_numeral)

text \<open>The double nearest to 0.1 is 0.1000000000000000055511151231257827...\<close>

lemma fl_one_tenth: "fl (1 / 10) = 3602879701896397 / 2 ^ 55"
proof -
  have b: "binade (1 / 10) = - 4"
    by (rule binade_eq) (simp_all add: powr_neg_numeral)
  have "(1 / 10 :: real) / 2 powr of_int (- 4 - 52) = 36028797018963968 / 5"
    by (simp add: powr_neg_numeral)
  moreover have "round_ties_even (36028797018963968 / 5) = 7205759403792794"
    by (simp add: round_ties_even_def Let_def)
  ultimately show ?thesis
    by (simp add: fl_def b powr_neg_numeral)
qed

lemma sin_lower:
  fixes x :: real
  assumes "0 < x"
  shows "x - x ^ 3 / 6 \<le> sin x"
proof -
  obtain t where "sin x = (\<Sum>m<3. sin_coeff m * x ^ m) + (sin (t + 1 / 2 * real 3 * pi) / fact 3) * x ^ 3"
    using Maclaurin_sin_expansion3 [of 3 x] assms by auto
  then have eq: "sin x = x + sin (t + 1 / 2 * real 3 * pi) / 6 * x ^ 3"
    by (simp add: sin_coeff_def eval_nat_numeral)
  have "- 1 \<le> sin (t + 1 / 2 * real 3 * pi)" by simp
  then have "- 1 / 6 * x ^ 3 \<le> sin (t + 1 / 2 * real 3 * pi) / 6 * x ^ 3"
    using assms by (intro mult_right_mono) simp_all
  then show ?thesis unfolding eq by simp
qed

lemma fl_rel_small:
  assumes "1 / 10 ^ 19 \<le> x"
  shows "x * (1 - 2 powr (- 53)) \<le> fl x" and "fl x \<le> x * (1 + 2 powr (- 53))"
proof -
  have "(2::real) powr (- 1022) \<le> 2 powr (- 64)" by (intro powr_mono) simp_all
  also have "\<dots> \<le> 1 / 10 ^ 19" by (simp add: powr_neg_numeral)
  finally have "2 powr (- 1022) \<le> x" using assms by linarith
  then show "x * (1 - 2 powr (- 53)) \<le> fl x" and "fl x \<le> x * (1 + 2 powr (- 53))"
    by (rule fl_rel)+
qed

lemma pi_minus_Math_PI:
  "84 / 10 ^ 18 < pi - Math_PI" "pi - Math_PI < 185 / 10 ^ 18"
  using pi_bounds by (simp_all add: Math_PI_def)

lemma sin_Math_PI_bounds:
  "83 / 10 ^ 18 \<le> sin Math_PI" "sin Math_PI \<le> 185 / 10 ^ 18"
proof -
  define d where "d = pi - Math_PI"
  have d: "84 / 10 ^ 18 < d" "d < 185 / 10 ^ 18"
    using pi_minus_Math_PI by (simp_all add: d_def)
  have eq: "sin Math_PI = sin d"
    unfolding d_def by (simp only: sin_pi_minus)
  have "d ^ 3 \<le> (185 / 10 ^ 18) ^ 3"
    using d by (intro power_mono) simp_all
  also have "\<dots> \<le> 6 / 10 ^ 18" by (simp add: power3_eq_cube)
  finally have cube: "d ^ 3 / 6 \<le> 1 / 10 ^ 18" by simp
  have "d - d ^ 3 / 6 \<le> sin d"
    using d by (intro sin_lower) simp
  then show "83 / 10 ^ 18 \<le> sin Math_PI"
    unfolding eq using d(1) cube by linarith
  have "sin d \<le> d" using d by (intro sin_x_le_x) simp
  then show "sin Math_PI \<le> 185 / 10 ^ 18"
    unfolding eq using d(2) by simp
qed

lemma path_curve_1_bounds:
  "16 / 10 ^ 16 \<le> path_curve 1" "path_curve 1 \<le> 38 / 10 ^ 16"
proof -
  define s where "s = fl (sin Math_PI)"
  have eq: "path_curve 1 = fl (s * 20)"
    by (simp add: path_curve_def Math_sin_def fl_Math_PI s_def)
  have "sin Math_PI * (1 - 2 powr (- 53)) \<le> s" and "s \<le> sin Math_PI * (1 + 2 powr (- 53))"
    unfolding s_def using sin_Math_PI_bounds(1) by (intro fl_rel_small; simp)+
  then have s: "82 / 10 ^ 18 \<le> s" "s \<le> 186 / 10 ^ 18"
    using sin_Math_PI_bounds by (simp_all add: powr_neg_numeral)
  have "s * 20 * (1 - 2 powr (- 53)) \<le> fl (s * 20)"
    and "fl (s * 20) \<le> s * 20 * (1 + 2 powr (- 53))"
    using s(1) by (intro fl_rel_small; simp)+
  then show "16 / 10 ^ 16 \<le> path_curve 1" "path_curve 1 \<le> 38 / 10 ^ 16"
    unfolding eq using s by (simp_all add: powr_neg_numeral)
qed

lemma Math_cos_2PI_bounds:
  "98 / 100 \<le> Math_cos (Math_PI * 2)" "Math_cos (Math_PI * 2) \<le> 101 / 100"
proof -
  define d where "d = pi - Math_PI"
  have d: "84 / 10 ^ 18 < d" "d < 185 / 10 ^ 18"
    using pi_minus_Math_PI by (simp_all add: d_def)
  have "Math_PI * 2 = 2 * pi - 2 * d" by (simp add: d_def)
  then have "cos (Math_PI * 2) = cos (2 * pi - 2 * d)" by (simp only:)
  also have "\<dots> = cos (2 * d)" by (simp only: cos_2pi_minus)
  also have "\<dots> = 1 - 2 * (sin d)\<^sup>2" by (rule cos_double_sin)
  finally have eq: "cos (Math_PI * 2) = 1 - 2 * (sin d)\<^sup>2" .
  have "\<bar>sin d\<bar> \<le> \<bar>d\<bar>" by (rule abs_sin_x_le_abs_x)
  then have "(sin d)\<^sup>2 \<le> d\<^sup>2" by (simp add: abs_le_square_iff)
  also have "\<dots> \<le> (185 / 10 ^ 18)\<^sup>2" using d by (intro power_mono) simp_all
  also have "\<dots> \<le> 1 / 200" by (simp add: power2_eq_square)
  finally have "99 / 100 \<le> cos (Math_PI * 2)" "cos (Math_PI * 2) \<le> 1"
    unfolding eq by simp_all
  define cv where "cv = cos (Math_PI * 2)"
  have c: "99 / 100 \<le> cv" "cv \<le> 1"
    unfolding cv_def by fact+
  have "cv * (1 - 2 powr (- 53)) \<le> fl cv" and "fl cv \<le> cv * (1 + 2 powr (- 53))"
    using c(1) by (intro fl_rel_small; simp)+
  then have "98 / 100 \<le> fl cv" "fl cv \<le> 101 / 100"
    using c by (simp_all add: powr_neg_numeral)
  then show "98 / 100 \<le> Math_cos (Math_PI * 2)" "Math_cos (Math_PI * 2) \<le> 101 / 100"
    unfolding Math_cos_def cv_def by simp_all
qed

lemma curve_term_bounds:
  "15 / 10 ^ 16 \<le> fl (path_curve 1 * Math_cos (Math_PI * 2))"
  "fl (path_curve 1 * Math_cos (Math_PI * 2)) \<le> 4 / 10 ^ 15"
proof -
  define u where "u = path_curve 1 * Math_cos (Math_PI * 2)"
  have "16 / 10 ^ 16 * (98 / 100) \<le> u"
    unfolding u_def using path_curve_1_bounds(1) Math_cos_2PI_bounds(1)
    by (intro mult_mono) simp_all
  moreover have "u \<le> 38 / 10 ^ 16 * (101 / 100)"
    unfolding u_def using path_curve_1_bounds Math_cos_2PI_bounds
    by (intro mult_mono) simp_all
  ultimately have u: "156 / 10 ^ 17 \<le> u" "u \<le> 39 / 10 ^ 16" by simp_all
  have "u * (1 - 2 powr (- 53)) \<le> fl u" and "fl u \<le> u * (1 + 2 powr (- 53))"
    using u(1) by (intro fl_rel_small; simp)+
  then show "15 / 10 ^ 16 \<le> fl (path_curve 1 * Math_cos (Math_PI * 2))"
    "fl (path_curve 1 * Math_cos (Math_PI * 2)) \<le> 4 / 10 ^ 15"
    unfolding u_def [symmetric] using u by (simp_all add: powr_neg_numeral)
qed

lemma curveX_at_1:
  assumes "progress p = 1"
  shows "attr_cx (element (updateParticlePosition p))
    = fl (fl (startX p + fl (fl (targetX p - startX p)))
          + fl (path_curve 1 * Math_cos (Math_PI * 2)))"
  using assms
  by (simp add: updateParticlePosition_def Let_def easeOutExpo_def fl_Math_PI fl_Math_PI_2)

lemma fl_err: "\<bar>fl x - x\<bar> \<le> \<bar>x\<bar> * 2 powr (- 53) + 2 powr (- 1075)"
proof (cases "x = 0")
  case True
  then show ?thesis by (simp add: fl_def)
next
  case False
  define q where "q = (2::real) powr of_int (binade x - 52)"
  have q: "0 < q" by (simp add: q_def)
  have fl: "fl x = of_int (round_ties_even (x / q)) * q"
    using False by (simp add: fl_def q_def)
  have "x / q - 1 / 2 \<le> of_int (round_ties_even (x / q))"
    and "of_int (round_ties_even (x / q)) \<le> x / q + 1 / 2"
    by (rule round_ties_even_near)+
  then have "(x / q - 1 / 2) * q \<le> fl x" and "fl x \<le> (x / q + 1 / 2) * q"
    unfolding fl using q by (simp_all add: mult_right_mono)
  then have "x - q / 2 \<le> fl x" and "fl x \<le> x + q / 2"
    using q by (simp_all add: algebra_simps)
  then have near: "\<bar>fl x - x\<bar> \<le> q / 2"
    by linarith
  have ax: "0 < \<bar>x\<bar>" using False by simp
  define e where "e = \<lfloor>log 2 \<bar>x\<bar>\<rfloor>"
  have lo: "2 powr of_int e \<le> \<bar>x\<bar>"
    using ax floor_log_eq_powr_iff [of "\<bar>x\<bar>" 2 e] by (simp add: e_def)
  have "q / 2 \<le> \<bar>x\<bar> * 2 powr (- 53) + 2 powr (- 1075)"
  proof (cases "- 1022 \<le> e")
    case True
    then have "binade x = e" by (simp add: binade_def e_def)
    then have "q / 2 = 2 powr of_int e * 2 powr (- 53)"
      by (simp add: q_def flip: powr_add) (simp add: powr_diff)
    also have "\<dots> \<le> \<bar>x\<bar> * 2 powr (- 53)" using lo by simp
    finally show ?thesis using powr_gt_zero [of 2 "- 1075"] by linarith
  next
    case False
    then have "binade x = - 1022" by (simp add: binade_def e_def)
    moreover have "(2::real) powr (- 1075) * 2 = 2 powr (- 1074)"
    proof -
      have "(2::real) powr (- 1075) * 2 powr 1 = 2 powr (- 1075 + 1)"
        by (simp only: powr_add)
      then show ?thesis by simp
    qed
    ultimately have "q / 2 = 2 powr (- 1075)"
      by (simp add: q_def)
    then show ?thesis using ax by simp
  qed
  with near show ?thesis by linarith
qed

lemma fl_err_small: "\<bar>fl x - x\<bar> \<le> \<bar>x\<bar> / 2 ^ 53 + 1 / 10 ^ 20"
proof -
  have "(2::real) powr (- 1075) \<le> 2 powr (- 70)" by (intro powr_mono) simp_all
  also have "\<dots> \<le> 1 / 10 ^ 20" by (simp add: powr_neg_numeral)
  finally show ?thesis using fl_err [of x] by (simp add: powr_neg_numeral)
qed

lemma lerp_err:
  assumes "\<bar>T\<bar> \<le> 6 / 10 ^ 15"
  shows "\<bar>fl (fl (s + fl (fl (t - s))) + T) - t\<bar> \<le> (\<bar>s\<bar> + \<bar>t\<bar>) / 2 ^ 50 + 1 / 10 ^ 14"
proof -
  define a where "a = fl (t - s)"
  define b where "b = fl a"
  define c where "c = fl (s + b)"
  define X where "X = fl (c + T)"
  have 1: "\<bar>a - (t - s)\<bar> \<le> \<bar>t - s\<bar> / 2 ^ 53 + 1 / 10 ^ 20"
    unfolding a_def by (rule fl_err_small)
  have 2: "\<bar>b - a\<bar> \<le> \<bar>a\<bar> / 2 ^ 53 + 1 / 10 ^ 20"
    unfolding b_def by (rule fl_err_small)
  have 3: "\<bar>c - (s + b)\<bar> \<le> \<bar>s + b\<bar> / 2 ^ 53 + 1 / 10 ^ 20"
    unfolding c_def by (rule fl_err_small)
  have 4: "\<bar>X - (c + T)\<bar> \<le> \<bar>c + T\<bar> / 2 ^ 53 + 1 / 10 ^ 20"
    unfolding X_def by (rule fl_err_small)
  define u where "u = \<bar>s\<bar> + \<bar>t\<bar>"
  define h :: real where "h = 1 / 10 ^ 20"
  have u: "0 \<le> u" "\<bar>t - s\<bar> \<le> u" "\<bar>t\<bar> \<le> u" by (simp_all add: u_def)
  have h: "0 < h" "h \<le> 1 / 100000000000000000000" by (simp_all add: h_def)
  have T: "\<bar>T\<bar> \<le> 6 / 1000000000000000" using assms by simp
  have 1: "\<bar>a - (t - s)\<bar> \<le> \<bar>t - s\<bar> / 9007199254740992 + h"
    and 2: "\<bar>b - a\<bar> \<le> \<bar>a\<bar> / 9007199254740992 + h"
    and 3: "\<bar>c - (s + b)\<bar> \<le> \<bar>s + b\<bar> / 9007199254740992 + h"
    and 4: "\<bar>X - (c + T)\<bar> \<le> \<bar>c + T\<bar> / 9007199254740992 + h"
    using 1 2 3 4 by (simp_all add: h_def)
  have e1: "\<bar>a - (t - s)\<bar> \<le> u / 9007199254740992 + h"
    using 1 u(2) by argo
  have a: "\<bar>a\<bar> \<le> 2 * u + h"
    using e1 u(1,2) by argo
  have e2: "\<bar>b - a\<bar> \<le> 2 * u / 9007199254740992 + 2 * h"
    using 2 a h(1) by argo
  have sb: "\<bar>s + b - t\<bar> \<le> 3 * u / 9007199254740992 + 3 * h"
    using e1 e2 by argo
  have sb': "\<bar>s + b\<bar> \<le> 2 * u + 3 * h"
    using sb u(1,3) by argo
  have e3: "\<bar>c - (s + b)\<bar> \<le> 2 * u / 9007199254740992 + 2 * h"
    using 3 sb' h(1) by argo
  have ct: "\<bar>c - t\<bar> \<le> 5 * u / 9007199254740992 + 5 * h"
    using sb e3 by argo
  have cT: "\<bar>c + T\<bar> \<le> 2 * u + 5 * h + \<bar>T\<bar>"
    using ct u(1,3) by argo
  have e4: "\<bar>X - (c + T)\<bar> \<le> 2 * u / 9007199254740992 + 2 * h + \<bar>T\<bar> / 9007199254740992"
    using 4 cT h(1) by argo
  have "\<bar>X - t\<bar> \<le> 7 * u / 9007199254740992 + 7 * h + \<bar>T\<bar> + \<bar>T\<bar> / 9007199254740992"
    using ct e4 by argo
  also have "\<dots> \<le> u / 1125899906842624 + 1 / 100000000000000"
    using T u(1) h(2) by argo
  also have "\<dots> = u / 2 ^ 50 + 1 / 10 ^ 14" by simp
  finally have "\<bar>X - t\<bar> \<le> (\<bar>s\<bar> + \<bar>t\<bar>) / 2 ^ 50 + 1 / 10 ^ 14"
    unfolding u_def .
  then show ?thesis unfolding X_def c_def b_def a_def .
qed

lemma fl_abs_bound:
  assumes "\<bar>x\<bar> \<le> B"
  shows "\<bar>fl x\<bar> \<le> B + B / 2 ^ 53 + 1 / 10 ^ 20"
proof -
  define y where "y = fl x"
  have "\<bar>y - x\<bar> \<le> \<bar>x\<bar> / 9007199254740992 + 1 / 100000000000000000000"
    unfolding y_def using fl_err_small [of x] by simp
  then have "\<bar>y\<bar> \<le> B + B / 9007199254740992 + 1 / 100000000000000000000"
    using assms by argo
  then show ?thesis unfolding y_def by simp
qed

lemma Math_sin_le: "\<bar>Math_sin z\<bar> \<le> 101 / 100"
proof -
  have "\<bar>fl (sin z)\<bar> \<le> 1 + 1 / 2 ^ 53 + 1 / 10 ^ 20"
    by (rule fl_abs_bound) simp
  also have "\<dots> \<le> 101 / 100" by simp
  finally show ?thesis unfolding Math_sin_def .
qed

lemma curve_term_y_bound:
  "\<bar>fl (fl (path_curve 1 * 0.5) * Math_sin z)\<bar> \<le> 6 / 10 ^ 15"
proof -
  define a where "a = fl (path_curve 1 * 0.5)"
  define m where "m = Math_sin z"
  have "\<bar>path_curve 1 * 0.5\<bar> \<le> 19 / 10 ^ 16"
    using path_curve_1_bounds by simp
  then have "\<bar>a\<bar> \<le> 19 / 10 ^ 16 + (19 / 10 ^ 16) / 2 ^ 53 + 1 / 10 ^ 20"
    unfolding a_def by (rule fl_abs_bound)
  also have "\<dots> \<le> 2 / 10 ^ 15" by simp
  finally have a: "\<bar>a\<bar> \<le> 2 / 10 ^ 15" .
  have m: "\<bar>m\<bar> \<le> 101 / 100" unfolding m_def by (rule Math_sin_le)
  have "\<bar>a * m\<bar> = \<bar>a\<bar> * \<bar>m\<bar>" by (rule abs_mult)
  also have "\<dots> \<le> 2 / 10 ^ 15 * (101 / 100)"
    using a m by (intro mult_mono) simp_all
  finally have am: "\<bar>a * m\<bar> \<le> 3 / 10 ^ 15" by simp
  then have "\<bar>fl (a * m)\<bar> \<le> 3 / 10 ^ 15 + (3 / 10 ^ 15) / 2 ^ 53 + 1 / 10 ^ 20"
    by (rule fl_abs_bound)
  also have "\<dots> \<le> 6 / 10 ^ 15" by simp
  finally show ?thesis unfolding a_def m_def .
qed

lemma curveY_at_1:
  assumes "progress p = 1"
  shows "attr_cy (element (updateParticlePosition p))
    = fl (fl (startY p + fl (fl (targetY p - startY p)))
          + fl (fl (path_curve 1 * 0.5) * Math_sin (fl (Math_PI * 3))))"
  using assms
  by (simp add: updateParticlePosition_def Let_def easeOutExpo_def fl_Math_PI)

lemma position_at_1_close:
  assumes "progress p = 1"
  shows "\<bar>attr_cx (element (updateParticlePosition p)) - targetX p\<bar>
           \<le> (\<bar>startX p\<bar> + \<bar>targetX p\<bar>) / 2 ^ 50 + 1 / 10 ^ 14"
    and "\<bar>attr_cy (element (updateParticlePosition p)) - targetY p\<bar>
           \<le> (\<bar>startY p\<bar> + \<bar>targetY p\<bar>) / 2 ^ 50 + 1 / 10 ^ 14"
proof -
  have "\<bar>fl (path_curve 1 * Math_cos (Math_PI * 2))\<bar> \<le> 6 / 10 ^ 15"
    using curve_term_bounds by simp
  then show "\<bar>attr_cx (element (updateParticlePosition p)) - targetX p\<bar>
           \<le> (\<bar>startX p\<bar> + \<bar>targetX p\<bar>) / 2 ^ 50 + 1 / 10 ^ 14"
    unfolding curveX_at_1 [OF assms] by (rule lerp_err)
  show "\<bar>attr_cy (element (updateParticlePosition p)) - targetY p\<bar>
           \<le> (\<bar>startY p\<bar> + \<bar>targetY p\<bar>) / 2 ^ 50 + 1 / 10 ^ 14"
    unfolding curveY_at_1 [OF assms] using curve_term_y_bound by (rule lerp_err)
qed

section \<open>Properties of the animation\<close>

lemma easeOutExpo_1: "easeOutExpo 1 = 1"
  by (simp add: easeOutExpo_def)

lemma updateParticlePosition_keeps:
  "startX (updateParticlePosition p) = startX p"
  "startY (updateParticlePosition p) = startY p"
  "targetX (updateParticlePosition p) = targetX p"
  "targetY (updateParticlePosition p) = targetY p"
  "progress (updateParticlePosition p) = progress p"
  by (simp_all add: updateParticlePosition_def Let_def)

lemma updateParticlePosition_formed:
  "formed (updateParticlePosition p) = (formed p \<or> 0.95 < progress p)"
  by (auto simp: updateParticlePosition_def Let_def)

lemma tween_tick_keeps:
  "startX (tween_tick v p) = startX p"
  "startY (tween_tick v p) = startY p"
  "targetX (tween_tick v p) = targetX p"
  "targetY (tween_tick v p) = targetY p"
  "progress (tween_tick v p) = v"
  by (simp_all add: tween_tick_def Let_def updateParticlePosition_keeps)

lemma tween_tick_formed: "formed (tween_tick v p) = (formed p \<or> 0.95 < v)"
  by (auto simp: tween_tick_def Let_def updateParticlePosition_formed)

lemma formation_run_keeps:
  "targetX (formation_run vs p) = targetX p \<and> targetY (formation_run vs p) = targetY p"
  unfolding formation_run_def
  by (induction vs arbitrary: p) (simp_all add: tween_tick_keeps)

lemma formation_run_formed:
  "formed (formation_run vs p) = (formed p \<or> list_ex (\<lambda>v. 0.95 < v) vs)"
  unfolding formation_run_def
  by (induction vs arbitrary: p) (auto simp: tween_tick_formed)

lemma formation_complete_run_fields:
  "targetX (formation_complete_run vs p) = targetX p"
  "targetY (formation_complete_run vs p) = targetY p"
  "progress (formation_complete_run vs p) = 1"
  "formed (formation_complete_run vs p)"
proof -
  have eq: "formation_complete_run vs p = tween_tick 1 (formation_run vs p)"
    by (simp add: formation_complete_run_def formation_run_def)
  show "targetX (formation_complete_run vs p) = targetX p"
    and "targetY (formation_complete_run vs p) = targetY p"
    unfolding eq by (simp_all add: tween_tick_keeps formation_run_keeps)
  show "progress (formation_complete_run vs p) = 1"
    unfolding eq by (simp add: tween_tick_keeps)
  show "formed (formation_complete_run vs p)"
    unfolding eq by (simp add: tween_tick_formed)
qed

lemma map_enumerate_indep:
  assumes "\<And>k x. f (g k x) = h x"
  shows "map f (map (\<lambda>(k, x). g k x) (enumerate n xs)) = map h xs"
  by (induction xs arbitrary: n) (simp_all add: assms)

lemma particles_scatterComplete:
  "particles (scatterComplete rnd w h s) =
     map (\<lambda>(k, particle). reset_particle (getEdgePosition (rnd (2 * k)) (rnd (2 * k + 1)) w h) particle)
       (enumerate 0 (particles s))"
  by (simp add: scatterComplete_def Let_def animateFormation_def)

lemma particles_formation_finish:
  "particles (formation_finish ticks s) =
     map (\<lambda>(k, particle). formation_complete_run (ticks k) particle) (enumerate 0 (particles s))"
  by (simp add: formation_finish_def formationComplete_def)

lemma reset_restores_targets:
  "map targetX (particles (scatterComplete rnd w h s)) = map originalTargetX (particles s)
   \<and> map targetY (particles (scatterComplete rnd w h s)) = map originalTargetY (particles s)
   \<and> map mouseOffsetX (particles (scatterComplete rnd w h s)) = replicate (length (particles s)) 0
   \<and> map mouseOffsetY (particles (scatterComplete rnd w h s)) = replicate (length (particles s)) 0
   \<and> map formed (particles (scatterComplete rnd w h s)) = replicate (length (particles s)) False
   \<and> map progress (particles (scatterComplete rnd w h s)) = replicate (length (particles s)) 0
   \<and> easeOutExpo 1 = 1
   \<and> map targetX (particles (formation_finish ticks (scatterComplete rnd w h s)))
       = map originalTargetX (particles s)
   \<and> map targetY (particles (formation_finish ticks (scatterComplete rnd w h s)))
       = map originalTargetY (particles s)
   \<and> map progress (particles (formation_finish ticks (scatterComplete rnd w h s)))
       = replicate (length (particles s)) 1
   \<and> map formed (particles (formation_finish ticks (scatterComplete rnd w h s)))
       = replicate (length (particles s)) True"
proof -
  let ?s1 = "scatterComplete rnd w h s"
  have len: "length (particles ?s1) = length (particles s)"
    unfolding particles_scatterComplete by simp
  have 1: "map targetX (particles ?s1) = map originalTargetX (particles s)"
    unfolding particles_scatterComplete
    by (rule map_enumerate_indep) (simp add: reset_particle_def)
  have 2: "map targetY (particles ?s1) = map originalTargetY (particles s)"
    unfolding particles_scatterComplete
    by (rule map_enumerate_indep) (simp add: reset_particle_def)
  have "map mouseOffsetX (particles ?s1) = map (\<lambda>_. 0) (particles s)"
    unfolding particles_scatterComplete
    by (rule map_enumerate_indep) (simp add: reset_particle_def)
  then have 3: "map mouseOffsetX (particles ?s1) = replicate (length (particles s)) 0"
    by (simp add: map_replicate_const)
  have "map mouseOffsetY (particles ?s1) = map (\<lambda>_. 0) (particles s)"
    unfolding particles_scatterComplete
    by (rule map_enumerate_indep) (simp add: reset_particle_def)
  then have 4: "map mouseOffsetY (particles ?s1) = replicate (length (particles s)) 0"
    by (simp add: map_replicate_const)
  have "map formed (particles ?s1) = map (\<lambda>_. False) (particles s)"
    unfolding particles_scatterComplete
    by (rule map_enumerate_indep) (simp add: reset_particle_def)
  then have 5: "map formed (particles ?s1) = replicate (length (particles s)) False"
    by (simp add: map_replicate_const)
  have "map progress (particles ?s1) = map (\<lambda>_. 0) (particles s)"
    unfolding particles_scatterComplete
    by (rule map_enumerate_indep) (simp add: reset_particle_def)
  then have 6: "map progress (particles ?s1) = replicate (length (particles s)) 0"
    by (simp add: map_replicate_const)
  have "map targetX (particles (formation_finish ticks ?s1)) = map targetX (particles ?s1)"
    unfolding particles_formation_finish
    by (rule map_enumerate_indep) (rule formation_complete_run_fields)
  then have 7: "map targetX (particles (formation_finish ticks ?s1))
      = map originalTargetX (particles s)"
    using 1 by simp
  have "map targetY (particles (formation_finish ticks ?s1)) = map targetY (particles ?s1)"
    unfolding particles_formation_finish
    by (rule map_enumerate_indep) (rule formation_complete_run_fields)
  then have 8: "map targetY (particles (formation_finish ticks ?s1))
      = map originalTargetY (particles s)"
    using 2 by simp
  have "map progress (particles (formation_finish ticks ?s1)) = map (\<lambda>_. 1) (particles ?s1)"
    unfolding particles_formation_finish
    by (rule map_enumerate_indep) (rule formation_complete_run_fields)
  then have 9: "map progress (particles (formation_finish ticks ?s1))
      = replicate (length (particles s)) 1"
    by (simp add: map_replicate_const len)
  have "map formed (particles (formation_finish ticks ?s1)) = map (\<lambda>_. True) (particles ?s1)"
    unfolding particles_formation_finish
    by (rule map_enumerate_indep) (simp add: formation_complete_run_fields)
  then have 10: "map formed (particles (formation_finish ticks ?s1))
      = replicate (length (particles s)) True"
    by (simp add: map_replicate_const len)
  show ?thesis
    using 1 2 3 4 5 6 7 8 9 10 easeOutExpo_1 by blast
qed

lemma formation_run_keeps_start:
  "startX (formation_run vs p) = startX p \<and> startY (formation_run vs p) = startY p"
  unfolding formation_run_def
  by (induction vs arbitrary: p) (simp_all add: tween_tick_keeps)

lemma formation_complete_run_last:
  "formation_complete_run vs p = updateParticlePosition ((formation_run vs p)\<lparr>progress := 1\<rparr>)"
  by (simp add: formation_complete_run_def formation_run_def tween_tick_def Let_def)

lemma formation_complete_run_close:
  "\<bar>attr_cx (element (formation_complete_run vs p)) - targetX p\<bar>
     \<le> (\<bar>startX p\<bar> + \<bar>targetX p\<bar>) / 2 ^ 50 + 1 / 10 ^ 14"
  "\<bar>attr_cy (element (formation_complete_run vs p)) - targetY p\<bar>
     \<le> (\<bar>startY p\<bar> + \<bar>targetY p\<bar>) / 2 ^ 50 + 1 / 10 ^ 14"
  unfolding formation_complete_run_last
  using position_at_1_close [of "(formation_run vs p)\<lparr>progress := 1\<rparr>"]
  by (simp_all add: formation_run_keeps formation_run_keeps_start)

text \<open>
  Claim C2, as amended. When the scatter timeline of \<open>resetAnimation\<close> completes, every
  particle has its target back at its original target, its mouse offsets at 0, \<open>formed\<close>
  false and \<open>progress\<close> 0. A formation run writes no target: after the reset and a
  formation that runs to its end, whatever the ticks before the last, every particle
  still has its original target, with \<open>progress\<close> 1 and \<open>formed\<close> true.
  \<open>easeOutExpo\<close> is exactly 1 at 1, but the amplitude of the path curve at progress 1,
  \<open>Math.sin(Math.PI) * 20\<close>, is positive, though below 10^-14, and the interpolation
  \<open>start + (target - start)\<close> is rounded. So the position that the last
  \<open>updateParticlePosition\<close> of the run gives to \<open>gsap.set\<close> is close to the original
  target and need not be equal to it: for a start and a target of magnitude up to 10^300
  (where nothing overflows) each coordinate is within (|start| + |target|) / 2^50 + 10^-14
  of it.
\<close>

theorem reset_round_trip_up_to_rounding:
  "map targetX (particles (scatterComplete rnd w h s)) = map originalTargetX (particles s)
   \<and> map targetY (particles (scatterComplete rnd w h s)) = map originalTargetY (particles s)
   \<and> map mouseOffsetX (particles (scatterComplete rnd w h s)) = replicate (length (particles s)) 0
   \<and> map mouseOffsetY (particles (scatterComplete rnd w h s)) = replicate (length (particles s)) 0
   \<and> map formed (particles (scatterComplete rnd w h s)) = replicate (length (particles s)) False
   \<and> map progress (particles (scatterComplete rnd w h s)) = replicate (length (particles s)) 0
   \<and> map targetX (particles (formation_finish ticks (scatterComplete rnd w h s)))
       = map originalTargetX (particles s)
   \<and> map targetY (particles (formation_finish ticks (scatterComplete rnd w h s)))
       = map originalTargetY (particles s)
   \<and> map progress (particles (formation_finish ticks (scatterComplete rnd w h s)))
       = replicate (length (particles s)) 1
   \<and> map formed (particles (formation_finish ticks (scatterComplete rnd w h s)))
       = replicate (length (particles s)) True
   \<and> easeOutExpo 1 = 1
   \<and> 0 < path_curve 1 \<and> path_curve 1 < 1 / 10 ^ 14
   \<and> (\<bar>fst newStart\<bar> \<le> 10 ^ 300 \<and> \<bar>snd newStart\<bar> \<le> 10 ^ 300
        \<and> \<bar>originalTargetX p\<bar> \<le> 10 ^ 300 \<and> \<bar>originalTargetY p\<bar> \<le> 10 ^ 300 \<longrightarrow>
        \<bar>attr_cx (element (formation_complete_run vs (reset_particle newStart p)))
           - originalTargetX p\<bar>
          \<le> (\<bar>fst newStart\<bar> + \<bar>originalTargetX p\<bar>) / 2 ^ 50 + 1 / 10 ^ 14
        \<and> \<bar>attr_cy (element (formation_complete_run vs (reset_particle newStart p)))
             - originalTargetY p\<bar>
          \<le> (\<bar>snd newStart\<bar> + \<bar>originalTargetY p\<bar>) / 2 ^ 50 + 1 / 10 ^ 14)"
proof -
  have pc: "0 < path_curve 1" "path_curve 1 < 1 / 10 ^ 14"
    using path_curve_1_bounds by simp_all
  have q: "startX (reset_particle newStart p) = fst newStart"
    "startY (reset_particle newStart p) = snd newStart"
    "targetX (reset_particle newStart p) = originalTargetX p"
    "targetY (reset_particle newStart p) = originalTargetY p"
    by (simp_all add: reset_particle_def)
  have close: "\<bar>attr_cx (element (formation_complete_run vs (reset_particle newStart p)))
           - originalTargetX p\<bar>
          \<le> (\<bar>fst newStart\<bar> + \<bar>originalTargetX p\<bar>) / 2 ^ 50 + 1 / 10 ^ 14"
    "\<bar>attr_cy (element (formation_complete_run vs (reset_particle newStart p)))
             - originalTargetY p\<bar>
          \<le> (\<bar>snd newStart\<bar> + \<bar>originalTargetY p\<bar>) / 2 ^ 50 + 1 / 10 ^ 14"
    using formation_complete_run_close [of vs "reset_particle newStart p"]
    unfolding q by blast+
  show ?thesis
    using reset_restores_targets [of rnd w h s ticks] pc close by blast
qed

theorem reset_round_trip_up_to_rounding_witness:
  "\<bar>fst ((- 150, 300) :: real \<times> real)\<bar> \<le> 10 ^ 300 \<and> \<bar>snd ((- 150, 300) :: real \<times> real)\<bar> \<le> 10 ^ 300
   \<and> \<bar>originalTargetX example_arriving\<bar> \<le> 10 ^ 300
   \<and> \<bar>originalTargetY example_arriving\<bar> \<le> 10 ^ 300
   \<and> \<bar>attr_cx (element (formation_complete_run [] (reset_particle (- 150, 300) example_arriving)))
        - 1 / 2\<bar> \<le> (150 + 1 / 2) / 2 ^ 50 + 1 / 10 ^ 14
   \<and> \<bar>attr_cy (element (formation_complete_run [] (reset_particle (- 150, 300) example_arriving)))
        - 1 / 4\<bar> \<le> (300 + 1 / 4) / 2 ^ 50 + 1 / 10 ^ 14"
proof -
  have o: "originalTargetX example_arriving = 1 / 2" "originalTargetY example_arriving = 1 / 4"
    by (simp_all add: example_arriving_def example_formed_def)
  have b: "\<bar>fst ((- 150, 300) :: real \<times> real)\<bar> \<le> 10 ^ 300" "\<bar>snd ((- 150, 300) :: real \<times> real)\<bar> \<le> 10 ^ 300"
    "\<bar>originalTargetX example_arriving\<bar> \<le> 10 ^ 300"
    "\<bar>originalTargetY example_arriving\<bar> \<le> 10 ^ 300"
    by (simp_all add: o)
  from reset_round_trip_up_to_rounding
    [where newStart = "(- 150, 300)" and p = example_arriving and vs = "[]"
      and s = example_component and rnd = "\<lambda>_. 3 / 4" and w = 1920 and h = 1080
      and ticks = "\<lambda>_. []"] b
  have "\<bar>attr_cx (element (formation_complete_run [] (reset_particle (- 150, 300) example_arriving)))
           - originalTargetX example_arriving\<bar>
          \<le> (\<bar>fst ((- 150, 300) :: real \<times> real)\<bar> + \<bar>originalTargetX example_arriving\<bar>) / 2 ^ 50 + 1 / 10 ^ 14"
    and "\<bar>attr_cy (element (formation_complete_run [] (reset_particle (- 150, 300) example_arriving)))
             - originalTargetY example_arriving\<bar>
          \<le> (\<bar>snd ((- 150, 300) :: real \<times> real)\<bar> + \<bar>originalTargetY example_arriving\<bar>) / 2 ^ 50 + 1 / 10 ^ 14"
    by blast+
  then show ?thesis using b by (simp add: o)
qed

text \<open>
  Claim C2 as stated fails: for a particle that starts at (-150, 300) with the target
  (1/2, 1/4), the amplitude of the path curve at progress 1 is positive and the abscissa
  that \<open>updateParticlePosition\<close> gives to \<open>gsap.set\<close> at progress 1 is above 1/2, also
  after a reset to that start followed by a formation that runs to its end.
\<close>

theorem round_trip_not_exact:
  "progress example_arriving = 1
   \<and> targetX example_arriving = 1 / 2 \<and> originalTargetX example_arriving = 1 / 2
   \<and> 0 < path_curve 1
   \<and> 1 / 2 < attr_cx (element (updateParticlePosition example_arriving))
   \<and> 1 / 2 < attr_cx (element (formation_complete_run []
                  (reset_particle (- 150, 300) example_arriving)))"
proof -
  have p: "progress example_arriving = 1" "startX example_arriving = - 150"
    "targetX example_arriving = 1 / 2" "originalTargetX example_arriving = 1 / 2"
    by (simp_all add: example_arriving_def example_formed_def)
  define t where "t = fl (path_curve 1 * Math_cos (Math_PI * 2))"
  have t: "15 / 10 ^ 16 \<le> t" using curve_term_bounds(1) by (simp add: t_def)
  have cur: "fl (- 150 + fl (fl (1 / 2 - (- 150)))) = 1 / 2"
    by (simp add: fl_301_2 fl_one_half)
  have x: "attr_cx (element (updateParticlePosition example_arriving)) = fl (1 / 2 + t)"
    unfolding curveX_at_1 [OF p(1)] p(2,3) cur t_def ..
  define q where "q = (reset_particle (- 150, 300) example_arriving)\<lparr>progress := 1\<rparr>"
  have q: "progress q = 1" "startX q = - 150" "targetX q = 1 / 2"
    by (simp_all add: q_def reset_particle_def p)
  have y0: "attr_cx (element (updateParticlePosition q)) = fl (1 / 2 + t)"
    unfolding curveX_at_1 [OF q(1)] q(2,3) cur t_def ..
  have "formation_complete_run [] (reset_particle (- 150, 300) example_arriving)
      = updateParticlePosition q"
    by (simp add: formation_complete_run_last formation_run_def q_def)
  then have y: "attr_cx (element (formation_complete_run []
      (reset_particle (- 150, 300) example_arriving))) = fl (1 / 2 + t)"
    using y0 by simp
  have "(1 / 2 + t) * (1 - 2 powr (- 53)) \<le> fl (1 / 2 + t)"
    using t by (intro fl_rel_small) simp
  then have "1 / 2 < fl (1 / 2 + t)"
    using t by (simp add: powr_neg_numeral)
  then show ?thesis
    using p x y path_curve_1_bounds(1) by simp
qed

lemma floating_step_formed: "formed (floating_step t p) = formed p"
  by (simp add: floating_step_def Let_def)

lemma mouse_step_formed: "formed (mouse_step mx my bx by' p) = formed p"
  by (simp add: mouse_step_def Let_def)

lemma ripple_step_formed: "formed (ripple_step x y p) = formed p"
  by (simp add: ripple_step_def Let_def)

text \<open>
  Claim C3. After \<open>updateParticlePosition\<close> a particle is formed exactly when it was
  formed before or its progress exceeds 0.95. No step of a formation run clears the flag:
  after any ticks a particle is formed exactly when it was before or one of the ticks
  exceeded 0.95; starting the timeline and its \<open>onComplete\<close> touch no particle. The
  floating, mouse and ripple updates leave the flag as it is; only the reset clears it.
\<close>

theorem formed_flag_monotonic:
  "formed (updateParticlePosition p) = (formed p \<or> 0.95 < progress p)
   \<and> formed (tween_tick v p) = (formed p \<or> 0.95 < v)
   \<and> formed (formation_run vs p) = (formed p \<or> list_ex (\<lambda>v. 0.95 < v) vs)
   \<and> formed (floating_step t p) = formed p
   \<and> formed (mouse_step mx my bx by' p) = formed p
   \<and> formed (ripple_step x y p) = formed p
   \<and> formed (reset_particle newStart p) = False
   \<and> particles (animateFormation ps s) = particles s
   \<and> particles (formationComplete s) = particles s"
  using updateParticlePosition_formed tween_tick_formed formation_run_formed
    floating_step_formed mouse_step_formed ripple_step_formed
  by (simp add: reset_particle_def animateFormation_def formationComplete_def)









text \<open>
  Claim C6. While \<open>isResetting\<close> is true a call of \<open>resetAnimation\<close> (the handle's
  \<open>resetParticles\<close>) returns at once and changes nothing, and while \<open>isAnimating\<close> is
  true the host's \<open>handleTransform\<close> changes nothing: the animations already started
  stay as they are.
\<close>

theorem reentrant_requests_ignored:
  "(isResetting s \<longrightarrow> resetAnimation rnd w h s = s \<and> resetParticles rnd w h s = s)
   \<and> (isAnimating host \<longrightarrow> handleTransform host = host)"
  by (simp add: resetAnimation_def resetParticles_def handleTransform_def)

theorem reentrant_requests_ignored_witness:
  "isResetting (example_component\<lparr>isResetting := True\<rparr>)
   \<and> resetAnimation (\<lambda>_. 1 / 2) 1920 1080 (example_component\<lparr>isResetting := True\<rparr>)
       = example_component\<lparr>isResetting := True\<rparr>
   \<and> isAnimating example_host \<and> handleTransform example_host = example_host"
  using reentrant_requests_ignored
    [of "example_component\<lparr>isResetting := True\<rparr>" "\<lambda>_. 1 / 2" 1920 1080 example_host]
  by (simp add: example_host_def)

text \<open>
  Claim C7. \<open>updateFloating\<close> draws a formed particle at its target plus the idle offset
  (the sinusoid of its floatSpeed, floatPhase and floatAmplitude) plus its mouse offset, and
  leaves an unformed particle exactly as it was.
\<close>

theorem floating_renders_formed_only:
  "(formed p \<longrightarrow>
      attr_cx (element (floating_step t p))
        = targetX p + sin (t * floatSpeed p + floatPhase p) * floatAmplitude p + mouseOffsetX p
    \<and> attr_cy (element (floating_step t p))
        = targetY p + cos (t * floatSpeed p + floatPhase p) * floatAmplitude p * 0.6 + mouseOffsetY p)
   \<and> (\<not> formed p \<longrightarrow> floating_step t p = p)
   \<and> particles (updateFloating t s) = map (floating_step t) (particles s)"
  by (simp add: floating_step_def Let_def updateFloating_def)

theorem floating_renders_formed_only_witness:
  "formed example_formed
   \<and> rendered (floating_step 0 example_formed) = (970, 490 + 4 * 0.6 - 5)
   \<and> \<not> formed example_unformed
   \<and> floating_step 0 example_unformed = example_unformed
   \<and> particles (updateFloating 0 example_component)
       = [floating_step 0 example_formed, example_unformed]"
proof -
  have f: "formed example_formed" "\<not> formed example_unformed"
    by (simp_all add: example_formed_def example_unformed_def)
  have v: "targetX example_formed = 960" "targetY example_formed = 490"
    "floatSpeed example_formed = 1 / 2" "floatPhase example_formed = 0"
    "floatAmplitude example_formed = 4"
    "mouseOffsetX example_formed = 10" "mouseOffsetY example_formed = - 5"
    by (simp_all add: example_formed_def)
  have c: "particles example_component = [example_formed, example_unformed]"
    by (simp add: example_component_def)
  show ?thesis
    using floating_renders_formed_only [of example_formed 0 example_component]
      floating_renders_formed_only [of example_unformed 0 example_component] f
    by (simp add: v c rendered_def)
qed

lemma mount_effect_starts:
  assumes "svgRef s \<noteq> None"
  shows "tweens (mount_effect rnd w h s) = tweens s @
           [Formation (batches_from 0 (length (generateButterflyShape (particleCount s) w h)))]"
    and "\<not> isFormed (mount_effect rnd w h s)"
    and "length (particles (mount_effect rnd w h s))
           = length (generateButterflyShape (particleCount s) w h)"
  using assms
  by (auto simp: mount_effect_def createParticleSystem_def Let_def animateFormation_def)

lemma mount_effect_isTransformed:
  "mount_effect rnd w h (s\<lparr>isTransformed := b\<rparr>) = (mount_effect rnd w h s)\<lparr>isTransformed := b\<rparr>"
  by (cases "svgRef s")
     (simp_all add: mount_effect_def createParticleSystem_def Let_def animateFormation_def)

lemma length_shape_2: "length (generateButterflyShape 2 w h) = 4"
  using generateButterflyShape_counts(5) [of 2 w h] by simp

lemma batches_from_0_4: "batches_from 0 4 = [[0, 1, 2, 3]]"
proof -
  have "batches_from 50 4 = []" by (subst batches_from.simps) simp
  then have "batches_from 0 4 = [[0..<4]]" by (subst batches_from.simps) simp
  also have "[0..<4] = [0, 1, 2, 3::nat]" by (simp add: upt_rec)
  finally show ?thesis .
qed

text \<open>
  Claim C9. The handle's \<open>transformToButterly\<close> changes nothing in any state.
  Formation is started by the effect that runs on mount: it does not read
  \<open>isTransformed\<close>, and whenever the SVG surface is there it creates the particles,
  starts the formation timeline over all of them and clears \<open>isFormed\<close>.
\<close>

theorem transformToButterly_noop:
  "transformToButterly s = s
   \<and> mount_effect rnd w h (s\<lparr>isTransformed := b\<rparr>) = (mount_effect rnd w h s)\<lparr>isTransformed := b\<rparr>
   \<and> (svgRef s \<noteq> None \<longrightarrow>
        tweens (mount_effect rnd w h s) = tweens s @
           [Formation (batches_from 0 (length (generateButterflyShape (particleCount s) w h)))]
        \<and> \<not> isFormed (mount_effect rnd w h s)
        \<and> length (particles (mount_effect rnd w h s))
             = length (generateButterflyShape (particleCount s) w h))"
  using mount_effect_starts [of s rnd w h] mount_effect_isTransformed
  by (simp add: transformToButterly_def)

theorem transformToButterly_noop_witness:
  "svgRef example_component \<noteq> None
   \<and> transformToButterly example_component = example_component
   \<and> tweens (mount_effect (\<lambda>_. 1 / 2) 1920 1080 example_component) = [Formation [[0, 1, 2, 3]]]
   \<and> \<not> isFormed (mount_effect (\<lambda>_. 1 / 2) 1920 1080 example_component)
   \<and> length (particles (mount_effect (\<lambda>_. 1 / 2) 1920 1080 example_component)) = 4"
proof -
  have c: "svgRef example_component \<noteq> None" "particleCount example_component = 2"
    "tweens example_component = []"
    by (simp_all add: example_component_def)
  show ?thesis
    using transformToButterly_noop [where s = example_component and rnd = "\<lambda>_. 1 / 2"
        and w = 1920 and h = 1080 and b = False] c(1)
    by (simp add: c(2,3) length_shape_2 batches_from_0_4)
qed

text \<open>
  Claim C10. While \<open>isFormed\<close> is false, or when the SVG surface is missing,
  \<open>handleClick\<close> changes nothing: no ripple is added and no particle is touched.
\<close>

theorem click_before_formation_noop:
  assumes "\<not> isFormed s \<or> svgRef s = None"
  shows "handleClick e rect s = s"
  using assms by (auto simp: handleClick_def)

theorem click_before_formation_noop_witness:
  "\<not> isFormed (example_component\<lparr>isFormed := False\<rparr>)
   \<and> handleClick \<lparr>clientX = 100, clientY = 100\<rparr> \<lparr>rect_left = 0, rect_top = 0\<rparr>
        (example_component\<lparr>isFormed := False\<rparr>) = example_component\<lparr>isFormed := False\<rparr>
   \<and> svgRef (example_component\<lparr>svgRef := None\<rparr>) = None
   \<and> handleClick \<lparr>clientX = 100, clientY = 100\<rparr> \<lparr>rect_left = 0, rect_top = 0\<rparr>
        (example_component\<lparr>svgRef := None\<rparr>) = example_component\<lparr>svgRef := None\<rparr>
   \<and> svgRef (handleClick \<lparr>clientX = 100, clientY = 100\<rparr> \<lparr>rect_left = 0, rect_top = 0\<rparr>
        example_component) = Some [Circle 0, Circle 1, Ripple 100 100]"
proof -
  have 1: "handleClick \<lparr>clientX = 100, clientY = 100\<rparr> \<lparr>rect_left = 0, rect_top = 0\<rparr>
      (example_component\<lparr>isFormed := False\<rparr>) = example_component\<lparr>isFormed := False\<rparr>"
    by (rule click_before_formation_noop) simp
  have 2: "handleClick \<lparr>clientX = 100, clientY = 100\<rparr> \<lparr>rect_left = 0, rect_top = 0\<rparr>
      (example_component\<lparr>svgRef := None\<rparr>) = example_component\<lparr>svgRef := None\<rparr>"
    by (rule click_before_formation_noop) simp
  have 3: "svgRef (handleClick \<lparr>clientX = 100, clientY = 100\<rparr> \<lparr>rect_left = 0, rect_top = 0\<rparr>
      example_component) = Some [Circle 0, Circle 1, Ripple 100 100]"
    by (simp add: handleClick_def createRippleEffect_def example_component_def)
  show ?thesis using 1 2 3 by simp
qed

end
